theory Spec2Isabelle
  imports Main "HOL-Library.Word"
begin

unbundle bit_operations_syntax

section \<open>Machine types\<close>

text \<open>
  The controller of \<^verbatim>\<open>src/core/cdrom.cpp\<close> works on bytes (\<^verbatim>\<open>u8\<close>), signed 16-bit
  audio samples (\<^verbatim>\<open>s16\<close>), unsigned 32-bit sector addresses (\<^verbatim>\<open>u32\<close>, \<^verbatim>\<open>CDImage::LBA\<close>)
  and signed 32-bit tick counts (\<^verbatim>\<open>TickCount\<close>). All are words; a signed quantity is read
  with \<open>sint\<close> and compared with \<open>\<le>s\<close>.
\<close>

type_synonym u8 = "8 word"
type_synonym s16 = "16 word"
type_synonym u32 = "32 word"
type_synonym TickCount = "32 word"

section \<open>Aborts\<close>

text \<open>
  \<^verbatim>\<open>Assert\<close> and \<^verbatim>\<open>Panic\<close> stop the emulator. Every such place of the source is a
  value of \<open>error\<close>; an operation returns \<open>Inl e\<close> when it stops there and \<open>Inr s\<close> with
  the new state otherwise. A null \<^verbatim>\<open>m_media\<close> that is dereferenced, and a FIFO access the
  FIFO cannot serve, stop the model too.
\<close>

datatype error =
    Assert_not_SMEN
  | Assert_no_async_pending
  | Assert_deliverable
  | Assert_GetTD_parameter
  | Assert_not_reading_or_playing
  | Assert_seeking
  | Assert_not_ignore_bit
  | Panic_unknown_register
  | Panic_unknown_command
  | Panic_not_reading_or_playing
  | Null_media
  | Fifo_empty
  | Fifo_out_of_range
  | Fifo_overflow

definition bindE :: "error + 'a \<Rightarrow> ('a \<Rightarrow> error + 'b) \<Rightarrow> error + 'b" where
  "bindE r f = (case r of Inl e \<Rightarrow> Inl e | Inr x \<Rightarrow> f x)"

section \<open>Bit fields\<close>

definition assign_bit :: "nat \<Rightarrow> bool \<Rightarrow> u8 \<Rightarrow> u8" where
  "assign_bit n b w = (if b then set_bit n w else unset_bit n w)"

text \<open>
  Modelled from the spec: the bit layout of the status byte (the union is declared in
  \<^verbatim>\<open>cdrom.h\<close>, which is not among the sources). The low two bits are the index; the flags
  follow in the order the spec lists them, \<^verbatim>\<open>ADPBUSY\<close> being the constant-zero bit 2.
\<close>

definition status_index :: "u8 \<Rightarrow> u8" where
  "status_index st = st AND 3"

definition ADPBUSY :: "u8 \<Rightarrow> bool" where "ADPBUSY st = bit st 2"
definition PRMEMPTY :: "u8 \<Rightarrow> bool" where "PRMEMPTY st = bit st 3"
definition PRMWRDY :: "u8 \<Rightarrow> bool" where "PRMWRDY st = bit st 4"
definition RSLRRDY :: "u8 \<Rightarrow> bool" where "RSLRRDY st = bit st 5"
definition DRQSTS :: "u8 \<Rightarrow> bool" where "DRQSTS st = bit st 6"
definition BUSYSTS :: "u8 \<Rightarrow> bool" where "BUSYSTS st = bit st 7"

text \<open>
  Modelled from the spec: the bits of the secondary status byte, in the order of the spec's
  data model (\<^verbatim>\<open>error, motor_on, seek_error, id_error, shell_open, reading, seeking,
  playing_cdda\<close>), with the two predicates \<^verbatim>\<open>IsActive\<close> and \<^verbatim>\<open>IsReadingOrPlaying\<close> of the
  missing header.
\<close>

definition stat_motor_on :: "u8 \<Rightarrow> bool" where "stat_motor_on b = bit b 1"
definition stat_reading :: "u8 \<Rightarrow> bool" where "stat_reading b = bit b 5"
definition stat_seeking :: "u8 \<Rightarrow> bool" where "stat_seeking b = bit b 6"
definition stat_playing_cdda :: "u8 \<Rightarrow> bool" where "stat_playing_cdda b = bit b 7"

definition IsReadingOrPlaying :: "u8 \<Rightarrow> bool" where
  "IsReadingOrPlaying b = (stat_reading b \<or> stat_playing_cdda b)"

definition IsActive :: "u8 \<Rightarrow> bool" where
  "IsActive b = (stat_seeking b \<or> stat_reading b \<or> stat_playing_cdda b)"

text \<open>
  Modelled from the spec: the bits of the mode byte, in the order of the spec's data model
  (\<^verbatim>\<open>cdda, auto_pause, report_audio, xa_filter, ignore_bit, read_raw_sector, xa_enable,
  double_speed\<close>).
\<close>

definition mode_report_audio :: "u8 \<Rightarrow> bool" where "mode_report_audio m = bit m 2"
definition mode_xa_filter :: "u8 \<Rightarrow> bool" where "mode_xa_filter m = bit m 3"
definition mode_ignore_bit :: "u8 \<Rightarrow> bool" where "mode_ignore_bit m = bit m 4"
definition mode_read_raw_sector :: "u8 \<Rightarrow> bool" where "mode_read_raw_sector m = bit m 5"
definition mode_xa_enable :: "u8 \<Rightarrow> bool" where "mode_xa_enable m = bit m 6"
definition mode_double_speed :: "u8 \<Rightarrow> bool" where "mode_double_speed m = bit m 7"

text \<open>
  Modelled from the spec: the request register's bits \<^verbatim>\<open>SMEN\<close> and \<^verbatim>\<open>BFRD\<close> (declared in
  the missing header), at the positions of the hardware register, 5 and 7.
\<close>

definition rr_SMEN :: "u8 \<Rightarrow> bool" where "rr_SMEN v = bit v 5"
definition rr_BFRD :: "u8 \<Rightarrow> bool" where "rr_BFRD v = bit v 7"

text \<open>
  Modelled from the spec: the sector header is the four bytes minute, second, frame, mode
  and the subheader the eight bytes that follow it in the sector, beginning with file,
  channel, submode and coding information. Of the submode bits the controller reads
  \<^verbatim>\<open>audio\<close>, \<^verbatim>\<open>realtime\<close> and \<^verbatim>\<open>eof\<close>, bits 2, 6 and 7 of a CD-XA subheader.
\<close>

definition SECTOR_HEADER_SIZE :: nat where "SECTOR_HEADER_SIZE = 4"
definition SECTOR_SUBHEADER_SIZE :: nat where "SECTOR_SUBHEADER_SIZE = 8"

definition header_minute :: "u8 list \<Rightarrow> u8" where "header_minute h = h ! 0"
definition header_second :: "u8 list \<Rightarrow> u8" where "header_second h = h ! 1"
definition header_frame :: "u8 list \<Rightarrow> u8" where "header_frame h = h ! 2"
definition header_sector_mode :: "u8 list \<Rightarrow> u8" where "header_sector_mode h = h ! 3"

definition subheader_file_number :: "u8 list \<Rightarrow> u8" where "subheader_file_number h = h ! 0"
definition subheader_channel_number :: "u8 list \<Rightarrow> u8" where "subheader_channel_number h = h ! 1"
definition subheader_submode :: "u8 list \<Rightarrow> u8" where "subheader_submode h = h ! 2"
definition subheader_codinginfo :: "u8 list \<Rightarrow> u8" where "subheader_codinginfo h = h ! 3"

definition submode_audio :: "u8 \<Rightarrow> bool" where "submode_audio b = bit b 2"
definition submode_realtime :: "u8 \<Rightarrow> bool" where "submode_realtime b = bit b 6"
definition submode_eof :: "u8 \<Rightarrow> bool" where "submode_eof b = bit b 7"

section \<open>Constants\<close>

text \<open>
  Modelled from the spec: the sizes and the register mask, whose declarations are in the
  missing headers: a raw sector has 2352 bytes, 12 of them sync; a data sector carries 2048
  bytes; the parameter FIFO holds 16 bytes and the data FIFO one raw sector less the sync;
  the interrupt registers have five bits.
\<close>

definition RAW_SECTOR_SIZE :: nat where "RAW_SECTOR_SIZE = 2352"
definition SECTOR_SYNC_SIZE :: nat where "SECTOR_SYNC_SIZE = 12"
definition DATA_SECTOR_SIZE :: nat where "DATA_SECTOR_SIZE = 2048"
definition PARAM_FIFO_SIZE :: nat where "PARAM_FIFO_SIZE = 16"
definition DATA_FIFO_SIZE :: nat where "DATA_FIFO_SIZE = 2340"
definition INTERRUPT_REGISTER_MASK :: u8 where "INTERRUPT_REGISTER_MASK = 0x1F"

text \<open>
  Modelled from the spec: binary-coded decimal, one decimal digit in each nibble (the two
  conversions are helpers of a missing header).
\<close>

definition BCDToDecimal :: "u8 \<Rightarrow> u8" where
  "BCDToDecimal v = drop_bit 4 v * 10 + (v AND 0xF)"

definition DecimalToBCD :: "u8 \<Rightarrow> u8" where
  "DecimalToBCD v = push_bit 4 (v div 10) + (v mod 10)"

definition Truncate8 :: "u32 \<Rightarrow> u8" where
  "Truncate8 v = ucast v"

section \<open>Data model\<close>

datatype CommandState = Idle | WaitForExecute | WaitForIRQClear

text \<open>
  Modelled from the spec: the interrupt codes of the glossary (the enumeration is declared in
  the missing header): INT1 = 1, INT2 = 2, ACK = 3, INT5 = 5.
\<close>

datatype Interrupt = INT1 | INT2 | ACK | INT5

fun interrupt_code :: "Interrupt \<Rightarrow> u8" where
  "interrupt_code INT1 = 1"
| "interrupt_code INT2 = 2"
| "interrupt_code ACK = 3"
| "interrupt_code INT5 = 5"

text \<open>
  The commands \<^verbatim>\<open>ExecuteCommand\<close> knows, \<^verbatim>\<open>Sync\<close> (the value of an idle controller) and
  every other byte the host may write. The opcode values belong to the missing header: the
  spec gives \<^verbatim>\<open>Setloc = 0x02\<close>, \<^verbatim>\<open>ReadN = 0x06\<close>, \<^verbatim>\<open>SeekL = 0x15\<close> and \<^verbatim>\<open>GetID = 0x1A\<close>;
  the others are the numbers of the console's command set.
\<close>

datatype Command =
    Sync | Getstat | Setloc | Play | ReadN | Pause | Init | Mute | Demute | Setfilter
  | Setmode | GetlocL | GetlocP | GetTN | GetTD | SeekL | SeekP | Test | GetID | ReadS
  | Unknown u8

definition Command_of_u8 :: "u8 \<Rightarrow> Command" where
  "Command_of_u8 v =
    (if v = 0x00 then Sync else if v = 0x01 then Getstat else if v = 0x02 then Setloc
     else if v = 0x03 then Play else if v = 0x06 then ReadN else if v = 0x09 then Pause
     else if v = 0x0A then Init else if v = 0x0B then Mute else if v = 0x0C then Demute
     else if v = 0x0D then Setfilter else if v = 0x0E then Setmode
     else if v = 0x10 then GetlocL else if v = 0x11 then GetlocP
     else if v = 0x13 then GetTN else if v = 0x14 then GetTD
     else if v = 0x15 then SeekL else if v = 0x16 then SeekP
     else if v = 0x19 then Test else if v = 0x1A then GetID
     else if v = 0x1B then ReadS else Unknown v)"

record Position =
  minute :: u32
  second :: u32
  frame :: u32

record VolumeMatrix =
  m00 :: u8
  m01 :: u8
  m10 :: u8
  m11 :: u8

text \<open>The calls the controller makes on the audio mixer, in order.\<close>

datatype spu_call = EnsureCDAudioSpace u32 | AddCDAudioSample s16 s16

text \<open>
  The members of \<^verbatim>\<open>class CDROM\<close>, and below them what the controller has done to its
  collaborators: the level it last gave the DMA request line, the number of interrupt
  requests it raised, the downcounts it programmed and its calls on the mixer. The disc
  image is a value of the type \<open>'img\<close>, of which the model knows nothing.
\<close>

record 'img CDROM =
  m_media :: "'img option"
  m_command_state :: CommandState
  m_command :: Command
  m_command_stage :: u32
  m_command_remaining_ticks :: TickCount
  m_read_or_seek_remaining_ticks :: TickCount
  m_status :: u8
  m_secondary_status :: u8
  m_mode :: u8
  m_interrupt_enable_register :: u8
  m_interrupt_flag_register :: u8
  m_pending_async_interrupt :: u8
  m_setloc_position :: Position
  m_seek_position :: Position
  m_setloc_pending :: bool
  m_read_after_seek :: bool
  m_play_after_seek :: bool
  m_muted :: bool
  m_adpcm_muted :: bool
  m_filter_file_number :: u8
  m_filter_channel_number :: u8
  m_last_sector_header :: "u8 list"
  m_last_sector_subheader :: "u8 list"
  m_cd_audio_volume_matrix :: VolumeMatrix
  m_next_cd_audio_volume_matrix :: VolumeMatrix
  m_xa_last_samples :: "s16 list"
  m_xa_resample_ring_buffer :: "s16 list \<times> s16 list"
  m_xa_resample_p :: u8
  m_xa_resample_sixstep :: u8
  m_param_fifo :: "u8 list"
  m_response_fifo :: "u8 list"
  m_async_response_fifo :: "u8 list"
  m_data_fifo :: "u8 list"
  m_sector_buffer :: "u8 list"
  dma_request :: bool
  irq_requests :: nat
  downcounts :: "TickCount list"
  spu_calls :: "spu_call list"

text \<open>
  What the controller calls and cannot see: the scheduler (\<^verbatim>\<open>System::Synchronize\<close>, which
  may run the controller before it returns, and the master clock), the disc image, the
  conversions of a position, the ADPCM decoder and the accessors of the coding information.
  Every function of the model that needs one of them takes this record; a theorem about such
  a function holds for every value of it.
\<close>

record 'img Externals =
  Synchronize :: "'img CDROM \<Rightarrow> error + 'img CDROM"
  MASTER_CLOCK :: TickCount
  img_Open :: "string \<Rightarrow> 'img option"
  img_SeekLBA :: "'img \<Rightarrow> u32 \<Rightarrow> bool \<times> 'img"
  img_Seek :: "'img \<Rightarrow> Position \<Rightarrow> bool \<times> 'img"
  img_Read :: "'img \<Rightarrow> u8 list \<times> 'img"
  img_GetPositionOnDisc :: "'img \<Rightarrow> u32"
  img_GetMSFPositionOnDisc :: "'img \<Rightarrow> Position"
  img_GetTrackNumber :: "'img \<Rightarrow> u32"
  img_GetTrackCount :: "'img \<Rightarrow> u32"
  img_GetTrackStartMSFPosition :: "'img \<Rightarrow> u8 \<Rightarrow> Position"
  img_GetLBACount :: "'img \<Rightarrow> u32"
  Position_ToLBA :: "Position \<Rightarrow> u32"
  Position_FromLBA :: "u32 \<Rightarrow> Position"
  DecodeADPCMSector :: "u8 list \<Rightarrow> s16 list \<Rightarrow> s16 list \<times> s16 list"
  codinginfo_IsStereo :: "u8 \<Rightarrow> bool"
  codinginfo_IsHalfSampleRate :: "u8 \<Rightarrow> bool"
  codinginfo_GetSamplesPerSector :: "u8 \<Rightarrow> u32"

section \<open>Status byte and interrupts\<close>

text \<open>
  Modelled from the spec: the three inline predicates of the missing header. A flag is
  outstanding when the interrupt-flag register is not zero; an asynchronous interrupt is
  pending when its code is not zero (0 meaning none).
\<close>

definition HasMedia :: "'img CDROM \<Rightarrow> bool" where
  "HasMedia s = (m_media s \<noteq> None)"

definition HasPendingInterrupt :: "'img CDROM \<Rightarrow> bool" where
  "HasPendingInterrupt s = (m_interrupt_flag_register s \<noteq> 0)"

definition HasPendingAsyncInterrupt :: "'img CDROM \<Rightarrow> bool" where
  "HasPendingAsyncInterrupt s = (m_pending_async_interrupt s \<noteq> 0)"

definition UpdateStatusRegister :: "'img CDROM \<Rightarrow> 'img CDROM" where
  "UpdateStatusRegister s =
    (let st1 = assign_bit 2 False (m_status s);
         st2 = assign_bit 3 (m_param_fifo s = []) st1;
         st3 = assign_bit 4 (length (m_param_fifo s) \<noteq> PARAM_FIFO_SIZE) st2;
         st4 = assign_bit 5 (m_response_fifo s \<noteq> []) st3;
         st5 = assign_bit 6 (m_data_fifo s \<noteq> []) st4;
         st6 = assign_bit 7 (m_command_state s = WaitForExecute) st5
     in s\<lparr>m_status := st6, dma_request := DRQSTS st6\<rparr>)"

definition SetDowncount :: "TickCount \<Rightarrow> 'img CDROM \<Rightarrow> 'img CDROM" where
  "SetDowncount t s = s\<lparr>downcounts := downcounts s @ [t]\<rparr>"

definition InterruptRequest :: "'img CDROM \<Rightarrow> 'img CDROM" where
  "InterruptRequest s = s\<lparr>irq_requests := Suc (irq_requests s)\<rparr>"

definition SetInterrupt :: "Interrupt \<Rightarrow> 'img CDROM \<Rightarrow> 'img CDROM" where
  "SetInterrupt interrupt s =
    (let s1 = s\<lparr>m_interrupt_flag_register := interrupt_code interrupt\<rparr>
     in if HasPendingInterrupt s1 then InterruptRequest s1 else s1)"

text \<open>
  Modelled from the spec: \<^verbatim>\<open>PushFromQueue\<close> of the missing FIFO class splices the whole
  asynchronous FIFO onto the response FIFO and leaves the asynchronous FIFO empty.
\<close>

definition DeliverAsyncInterrupt :: "'img CDROM \<Rightarrow> error + 'img CDROM" where
  "DeliverAsyncInterrupt s =
    (if \<not> (m_pending_async_interrupt s \<noteq> 0 \<and> \<not> HasPendingInterrupt s)
     then Inl Assert_deliverable
     else Inr (InterruptRequest
       (s\<lparr>m_response_fifo := [] @ m_async_response_fifo s,
          m_async_response_fifo := [],
          m_interrupt_flag_register := m_pending_async_interrupt s,
          m_pending_async_interrupt := 0\<rparr>)))"

definition SetAsyncInterrupt :: "Interrupt \<Rightarrow> 'img CDROM \<Rightarrow> error + 'img CDROM" where
  "SetAsyncInterrupt interrupt s =
    (if m_pending_async_interrupt s \<noteq> 0 then Inl Assert_no_async_pending
     else let s1 = s\<lparr>m_pending_async_interrupt := interrupt_code interrupt\<rparr>
          in if \<not> HasPendingInterrupt s1 then DeliverAsyncInterrupt s1 else Inr s1)"

definition CancelAsyncInterrupt :: "'img CDROM \<Rightarrow> 'img CDROM" where
  "CancelAsyncInterrupt s = s\<lparr>m_pending_async_interrupt := 0, m_async_response_fifo := []\<rparr>"

definition SendACKAndStat :: "'img CDROM \<Rightarrow> 'img CDROM" where
  "SendACKAndStat s =
    SetInterrupt ACK (s\<lparr>m_response_fifo := m_response_fifo s @ [m_secondary_status s]\<rparr>)"

definition SendErrorResponse :: "u8 \<Rightarrow> 'img CDROM \<Rightarrow> 'img CDROM" where
  "SendErrorResponse reason s =
    SetInterrupt INT5
      (s\<lparr>m_response_fifo := m_response_fifo s @ [m_secondary_status s OR 0x01, reason]\<rparr>)"

definition SendAsyncErrorResponse :: "u8 \<Rightarrow> 'img CDROM \<Rightarrow> error + 'img CDROM" where
  "SendAsyncErrorResponse reason s =
    SetAsyncInterrupt INT5
      (s\<lparr>m_async_response_fifo :=
           m_async_response_fifo s @ [m_secondary_status s OR 0x01, reason]\<rparr>)"

section \<open>FIFOs and buffers\<close>

text \<open>
  Modelled from the spec: the FIFO class is not among the sources. A FIFO is the list of its
  bytes, oldest first. \<^verbatim>\<open>Peek\<close> and \<^verbatim>\<open>Pop\<close> of an element that is not there, and a push
  beyond the capacity of the data FIFO, are outside what the spec defines; the model stops
  there.
\<close>

definition Peek :: "u8 list \<Rightarrow> nat \<Rightarrow> error + u8" where
  "Peek q i = (if i < length q then Inr (q ! i) else Inl Fifo_out_of_range)"

definition resize_buffer :: "nat \<Rightarrow> u8 list \<Rightarrow> u8 list" where
  "resize_buffer n xs = take n xs @ replicate (n - length xs) 0"

definition write_bytes :: "u8 list \<Rightarrow> u8 list \<Rightarrow> u8 list" where
  "write_bytes dst src = take (length dst) src @ drop (length src) dst"

section \<open>Timing\<close>

definition c_div :: "int \<Rightarrow> int \<Rightarrow> int" where
  "c_div a b = sgn a * sgn b * (\<bar>a\<bar> div \<bar>b\<bar>)"

definition GetAckDelayForCommand :: "'img CDROM \<Rightarrow> TickCount" where
  "GetAckDelayForCommand s = (if m_command s = Init then 60000 else 4000)"

definition GetTicksForRead :: "'img Externals \<Rightarrow> 'img CDROM \<Rightarrow> TickCount" where
  "GetTicksForRead env s =
    (if mode_double_speed (m_mode s) then word_of_int (c_div (sint (MASTER_CLOCK env)) 150)
     else word_of_int (c_div (sint (MASTER_CLOCK env)) 75))"

definition GetTicksForSeek :: "'img Externals \<Rightarrow> 'img CDROM \<Rightarrow> error + TickCount" where
  "GetTicksForSeek env s =
    (case m_media s of
       None \<Rightarrow> Inl Null_media
     | Some img \<Rightarrow>
         let current_lba = img_GetPositionOnDisc env img;
             new_lba = Position_ToLBA env (m_setloc_position s);
             lba_diff = (if new_lba > current_lba then new_lba - current_lba
                         else current_lba - new_lba)
         in Inr (20000 + lba_diff * 100))"

section \<open>Command sequencing\<close>

definition NextCommandStage ::
  "'img Externals \<Rightarrow> bool \<Rightarrow> u32 \<Rightarrow> 'img CDROM \<Rightarrow> error + 'img CDROM" where
  "NextCommandStage env wait_for_irq time s =
    (let s1 = UpdateStatusRegister
                (s\<lparr>m_command_state := WaitForIRQClear,
                   m_command_remaining_ticks := time,
                   m_command_stage := m_command_stage s + 1\<rparr>)
     in if wait_for_irq then Inr s1
        else bindE (Synchronize env s1) (\<lambda>s2.
          let s3 = s2\<lparr>m_command_state := WaitForExecute\<rparr>
          in Inr (UpdateStatusRegister (SetDowncount (m_command_remaining_ticks s3) s3))))"

definition EndCommand :: "'img CDROM \<Rightarrow> 'img CDROM" where
  "EndCommand s =
    UpdateStatusRegister
      (s\<lparr>m_param_fifo := [],
         m_command_state := Idle,
         m_command := Sync,
         m_command_stage := 0,
         m_command_remaining_ticks := 0\<rparr>)"

section \<open>Drive\<close>

definition StopReading :: "'img CDROM \<Rightarrow> 'img CDROM" where
  "StopReading s =
    (if \<not> IsActive (m_secondary_status s) then s
     else s\<lparr>m_secondary_status :=
               assign_bit 6 False (assign_bit 7 False (assign_bit 5 False (m_secondary_status s))),
            m_read_or_seek_remaining_ticks := 0\<rparr>)"

definition BeginSeeking :: "'img Externals \<Rightarrow> 'img CDROM \<Rightarrow> error + 'img CDROM" where
  "BeginSeeking env s =
    (let s1 = s\<lparr>m_seek_position := m_setloc_position s, m_setloc_pending := False\<rparr>
     in if IsReadingOrPlaying (m_secondary_status s1) then Inl Assert_not_reading_or_playing
        else
          let s2 = s1\<lparr>m_secondary_status :=
                        assign_bit 6 True (assign_bit 1 True (m_secondary_status s1))\<rparr>
          in bindE (GetTicksForSeek env s2) (\<lambda>ticks.
               let s3 = s2\<lparr>m_read_or_seek_remaining_ticks := ticks\<rparr>
               in Inr (SetDowncount (m_read_or_seek_remaining_ticks s3) s3)))"

text \<open>The tail of \<^verbatim>\<open>BeginReading\<close>, reached when no seek is needed.\<close>

definition BeginReading_in_position ::
  "'img Externals \<Rightarrow> bool \<Rightarrow> 'img CDROM \<Rightarrow> 'img CDROM" where
  "BeginReading_in_position env cdda s =
    (let st = assign_bit 7 cdda (assign_bit 5 (\<not> cdda)
                (assign_bit 6 False (assign_bit 1 True (m_secondary_status s))));
         s1 = s\<lparr>m_secondary_status := st\<rparr>;
         s2 = s1\<lparr>m_read_or_seek_remaining_ticks := GetTicksForRead env s1\<rparr>
     in SetDowncount (m_read_or_seek_remaining_ticks s2) s2)"

definition BeginReading :: "'img Externals \<Rightarrow> bool \<Rightarrow> 'img CDROM \<Rightarrow> error + 'img CDROM" where
  "BeginReading env cdda s =
    (if m_setloc_pending s then
       (case m_media s of
          None \<Rightarrow> Inl Null_media
        | Some img \<Rightarrow>
            if img_GetMSFPositionOnDisc env img \<noteq> m_setloc_position s then
              bindE (BeginSeeking env s) (\<lambda>s1.
                Inr (s1\<lparr>m_read_after_seek := \<not> cdda, m_play_after_seek := cdda\<rparr>))
            else Inr (BeginReading_in_position env cdda (s\<lparr>m_setloc_pending := False\<rparr>)))
     else Inr (BeginReading_in_position env cdda s))"

definition LoadDataFIFO :: "'img CDROM \<Rightarrow> error + 'img CDROM" where
  "LoadDataFIFO s =
    (if m_sector_buffer s = [] then Inr s
     else
       let skip = (if mode_read_raw_sector (m_mode s) then SECTOR_SYNC_SIZE
                   else SECTOR_SYNC_SIZE + 12);
           size = (if mode_read_raw_sector (m_mode s) then RAW_SECTOR_SIZE - SECTOR_SYNC_SIZE
                   else DATA_SECTOR_SIZE)
       in if length (m_sector_buffer s) < skip + size then Inl Fifo_out_of_range
          else if DATA_FIFO_SIZE < length (m_data_fifo s) + size then Inl Fifo_overflow
          else Inr (s\<lparr>m_data_fifo := m_data_fifo s @ take size (drop skip (m_sector_buffer s)),
                      m_sector_buffer := []\<rparr>))"

section \<open>Audio\<close>

text \<open>
  The sums of \<^verbatim>\<open>ZigZagInterpolate\<close> and the products of \<^verbatim>\<open>ApplyVolume\<close> are 32-bit in
  the source and stay far inside that range (29 terms of at most \<open>2^15\<close>, a product of at
  most \<open>2^15 * 255\<close>), so they are integers here. The division by \<^verbatim>\<open>0x8000\<close> truncates
  towards zero; the shift \<^verbatim>\<open>>> 7\<close> of a signed value rounds down. The sum of two samples is
  narrowed to 16 bits, which is the addition of \<open>16 word\<close>.
\<close>

definition clamp_s16 :: "int \<Rightarrow> s16" where
  "clamp_s16 v = word_of_int (max (- 0x8000) (min 0x7FFF v))"

definition s_zigzag_table :: "int list list" where
  "s_zigzag_table =
   [ [0x0000, 0x0000, 0x0000, 0x0000, 0x0000, - 0x0002, 0x000A, - 0x0022,
     0x0041, - 0x0054, 0x0034, 0x0009, - 0x010A, 0x0400, - 0x0A78, 0x234C,
     0x6794, - 0x1780, 0x0BCD, - 0x0623, 0x0350, - 0x016D, 0x006B, 0x000A,
     - 0x0010, 0x0011, - 0x0008, 0x0003, - 0x0001],
    [0x0000, 0x0000, 0x0000, - 0x0002, 0x0000, 0x0003, - 0x0013, 0x003C,
     - 0x004B, 0x00A2, - 0x00E3, 0x0132, - 0x0043, - 0x0267, 0x0C9D, 0x74BB,
     - 0x11B4, 0x09B8, - 0x05BF, 0x0372, - 0x01A8, 0x00A6, - 0x001B, 0x0005,
     0x0006, - 0x0008, 0x0003, - 0x0001, 0x0000],
    [0x0000, 0x0000, - 0x0001, 0x0003, - 0x0002, - 0x0005, 0x001F, - 0x004A,
     0x00B3, - 0x0192, 0x02B1, - 0x039E, 0x04F8, - 0x05A6, 0x7939, - 0x05A6,
     0x04F8, - 0x039E, 0x02B1, - 0x0192, 0x00B3, - 0x004A, 0x001F, - 0x0005,
     - 0x0002, 0x0003, - 0x0001, 0x0000, 0x0000],
    [0x0000, - 0x0001, 0x0003, - 0x0008, 0x0006, 0x0005, - 0x001B, 0x00A6,
     - 0x01A8, 0x0372, - 0x05BF, 0x09B8, - 0x11B4, 0x74BB, 0x0C9D, - 0x0267,
     - 0x0043, 0x0132, - 0x00E3, 0x00A2, - 0x004B, 0x003C, - 0x0013, 0x0003,
     0x0000, - 0x0002, 0x0000, 0x0000, 0x0000],
    [- 0x0001, 0x0003, - 0x0008, 0x0011, - 0x0010, 0x000A, 0x006B, - 0x016D,
     0x0350, - 0x0623, 0x0BCD, - 0x1780, 0x6794, 0x234C, - 0x0A78, 0x0400,
     - 0x010A, 0x0009, 0x0034, - 0x0054, 0x0041, - 0x0022, 0x000A, - 0x0001,
     0x0000, 0x0001, 0x0000, 0x0000, 0x0000],
    [0x0002, - 0x0008, 0x0010, - 0x0023, 0x002B, 0x001A, - 0x00EB, 0x027B,
     - 0x0548, 0x0AFA, - 0x16FA, 0x53E0, 0x3C07, - 0x1249, 0x080E, - 0x0347,
     0x015B, - 0x0044, - 0x0017, 0x0046, - 0x0023, 0x0011, - 0x0005, 0x0000,
     0x0000, 0x0000, 0x0000, 0x0000, 0x0000],
    [- 0x0005, 0x0011, - 0x0023, 0x0046, - 0x0017, - 0x0044, 0x015B, - 0x0347,
     0x080E, - 0x1249, 0x3C07, 0x53E0, - 0x16FA, 0x0AFA, - 0x0548, 0x027B,
     - 0x00EB, 0x001A, 0x002B, - 0x0023, 0x0010, - 0x0008, 0x0002, 0x0000,
     0x0000, 0x0000, 0x0000, 0x0000, 0x0000] ]"

definition ZigZagInterpolate :: "s16 list \<Rightarrow> int list \<Rightarrow> u8 \<Rightarrow> s16" where
  "ZigZagInterpolate ringbuf table p =
    clamp_s16
      (foldl (\<lambda>sum i.
                sum + c_div (sint (ringbuf ! nat ((uint p - int i) AND 0x1F)) * (table ! i)) 0x8000)
         0 [0..<29])"

definition ApplyVolume :: "s16 \<Rightarrow> u8 \<Rightarrow> s16" where
  "ApplyVolume sample volume = clamp_s16 (drop_bit 7 (sint sample * uint volume))"

text \<open>
  The pair \<^verbatim>\<open>(left_out, right_out)\<close> that \<^verbatim>\<open>ResampleXAADPCM\<close> computes from an interpolated
  pair, and the pair \<^verbatim>\<open>(left, right)\<close> that \<^verbatim>\<open>ProcessCDDASector\<close> computes from a pair
  of the sector.
\<close>

definition XA_volume :: "VolumeMatrix \<Rightarrow> s16 \<Rightarrow> s16 \<Rightarrow> s16 \<times> s16" where
  "XA_volume M left_interp right_interp =
    (ApplyVolume left_interp (m00 M) + ApplyVolume right_interp (m10 M),
     ApplyVolume left_interp (m10 M) + ApplyVolume right_interp (m11 M))"

definition CDDA_volume :: "VolumeMatrix \<Rightarrow> s16 \<Rightarrow> s16 \<Rightarrow> s16 \<times> s16" where
  "CDDA_volume M samp_left samp_right =
    (ApplyVolume samp_left (m00 M) + ApplyVolume samp_right (m01 M),
     ApplyVolume samp_left (m10 M) + ApplyVolume samp_right (m11 M))"

record ResampleState =
  rs_spu :: "spu_call list"
  rs_left :: "s16 list"
  rs_right :: "s16 list"
  rs_p :: u8
  rs_sixstep :: u8

text \<open>The loop over the seven phases \<^verbatim>\<open>j\<close>: the calls it makes on the mixer.\<close>

definition resample_phases :: "bool \<Rightarrow> VolumeMatrix \<Rightarrow> s16 list \<Rightarrow> s16 list \<Rightarrow> u8 \<Rightarrow> spu_call list" where
  "resample_phases STEREO M left_ringbuf right_ringbuf p =
    map (\<lambda>j.
           let left_interp = ZigZagInterpolate left_ringbuf (s_zigzag_table ! j) p;
               right_interp = (if STEREO then ZigZagInterpolate right_ringbuf (s_zigzag_table ! j) p
                               else left_interp);
               (left_out, right_out) = XA_volume M left_interp right_interp
           in AddCDAudioSample left_out right_out)
      [0..<7]"

text \<open>
  The body of the loop over \<^verbatim>\<open>sample_dup\<close>: store the pair in the ring, advance \<^verbatim>\<open>p\<close>, count
  \<^verbatim>\<open>sixstep\<close> down and, when it reaches zero, emit seven pairs. The ring has 32 entries and
  \<^verbatim>\<open>p\<close> stays below 32.
\<close>

definition resample_store :: "bool \<Rightarrow> VolumeMatrix \<Rightarrow> s16 \<Rightarrow> s16 \<Rightarrow> ResampleState \<Rightarrow> ResampleState" where
  "resample_store STEREO M left right rs =
    (let left_ringbuf = (rs_left rs)[unat (rs_p rs) := left];
         right_ringbuf = (if STEREO then (rs_right rs)[unat (rs_p rs) := right] else rs_right rs);
         p = (rs_p rs + 1) mod 32;
         sixstep = rs_sixstep rs - 1
     in if sixstep = 0
        then \<lparr>rs_spu = rs_spu rs @ resample_phases STEREO M left_ringbuf right_ringbuf p,
              rs_left = left_ringbuf, rs_right = right_ringbuf, rs_p = p, rs_sixstep = 6\<rparr>
        else \<lparr>rs_spu = rs_spu rs,
              rs_left = left_ringbuf, rs_right = right_ringbuf, rs_p = p, rs_sixstep = sixstep\<rparr>)"

primrec resample_dup :: "nat \<Rightarrow> bool \<Rightarrow> VolumeMatrix \<Rightarrow> s16 \<Rightarrow> s16 \<Rightarrow> ResampleState \<Rightarrow> ResampleState" where
  "resample_dup 0 STEREO M left right rs = rs"
| "resample_dup (Suc n) STEREO M left right rs =
     resample_dup n STEREO M left right (resample_store STEREO M left right rs)"

text \<open>
  The loop over the input samples; \<open>i\<close> is the position of \<^verbatim>\<open>samples_in\<close> in the sample
  buffer and the second number counts the iterations that remain.
\<close>

fun resample_samples ::
  "bool \<Rightarrow> bool \<Rightarrow> VolumeMatrix \<Rightarrow> s16 list \<Rightarrow> nat \<Rightarrow> nat \<Rightarrow> ResampleState \<Rightarrow> ResampleState" where
  "resample_samples STEREO SAMPLE_RATE M samples_in i 0 rs = rs"
| "resample_samples STEREO SAMPLE_RATE M samples_in i (Suc n) rs =
     (let left = samples_in ! i;
          right = (if STEREO then samples_in ! (i + 1) else left);
          i' = (if STEREO then i + 2 else i + 1)
      in resample_samples STEREO SAMPLE_RATE M samples_in i' n
           (resample_dup (if SAMPLE_RATE then 2 else 1) STEREO M left right rs))"

definition ResampleXAADPCM ::
  "bool \<Rightarrow> bool \<Rightarrow> s16 list \<Rightarrow> u32 \<Rightarrow> VolumeMatrix \<Rightarrow> ResampleState \<Rightarrow> ResampleState" where
  "ResampleXAADPCM STEREO SAMPLE_RATE samples_in num_samples_in volume_matrix rs =
    resample_samples STEREO SAMPLE_RATE volume_matrix samples_in 0 (unat num_samples_in) rs"

definition ProcessXAADPCMSector :: "'img Externals \<Rightarrow> 'img CDROM \<Rightarrow> 'img CDROM" where
  "ProcessXAADPCMSector env s =
    (let (sample_buffer, last_samples) =
           DecodeADPCMSector env (m_sector_buffer s) (m_xa_last_samples s);
         s1 = s\<lparr>m_xa_last_samples := last_samples\<rparr>
     in if m_muted s1 \<or> m_adpcm_muted s1 then s1
        else
          let codinginfo = subheader_codinginfo (m_last_sector_subheader s1);
              STEREO = codinginfo_IsStereo env codinginfo;
              num_samples = (if STEREO then codinginfo_GetSamplesPerSector env codinginfo div 2
                             else codinginfo_GetSamplesPerSector env codinginfo);
              rs = ResampleXAADPCM STEREO (codinginfo_IsHalfSampleRate env codinginfo)
                     sample_buffer num_samples (m_cd_audio_volume_matrix s1)
                     \<lparr>rs_spu = spu_calls s1 @ [EnsureCDAudioSpace num_samples],
                      rs_left = fst (m_xa_resample_ring_buffer s1),
                      rs_right = snd (m_xa_resample_ring_buffer s1),
                      rs_p = m_xa_resample_p s1,
                      rs_sixstep = m_xa_resample_sixstep s1\<rparr>
          in s1\<lparr>spu_calls := rs_spu rs,
                m_xa_resample_ring_buffer := (rs_left rs, rs_right rs),
                m_xa_resample_p := rs_p rs,
                m_xa_resample_sixstep := rs_sixstep rs\<rparr>)"

text \<open>A 16-bit sample of the sector, copied from two bytes of a little-endian host.\<close>

definition read_s16 :: "u8 list \<Rightarrow> nat \<Rightarrow> s16" where
  "read_s16 buf off = ucast (buf ! off) OR push_bit 8 (ucast (buf ! (off + 1)))"

fun CDDA_samples :: "VolumeMatrix \<Rightarrow> u8 list \<Rightarrow> nat \<Rightarrow> nat \<Rightarrow> spu_call list" where
  "CDDA_samples M buf sector_ptr 0 = []"
| "CDDA_samples M buf sector_ptr (Suc n) =
     (let samp_left = read_s16 buf sector_ptr;
          samp_right = read_s16 buf (sector_ptr + 2);
          (left, right) = CDDA_volume M samp_left samp_right
      in AddCDAudioSample left right # CDDA_samples M buf (sector_ptr + 4) n)"

definition ProcessCDDASector :: "'img CDROM \<Rightarrow> 'img CDROM" where
  "ProcessCDDASector s =
    (let num_samples = RAW_SECTOR_SIZE div 2 div 2;
         s1 = (if \<not> m_muted s
               then s\<lparr>spu_calls := spu_calls s @ [EnsureCDAudioSpace (of_nat num_samples)]
                                   @ CDDA_samples (m_cd_audio_volume_matrix s) (m_sector_buffer s)
                                       0 num_samples\<rparr>
               else s)
     in s1\<lparr>m_sector_buffer := []\<rparr>)"

section \<open>Sector processing\<close>

definition ProcessDataSector :: "'img Externals \<Rightarrow> 'img CDROM \<Rightarrow> error + 'img CDROM" where
  "ProcessDataSector env s =
    (let s1 = s\<lparr>m_last_sector_header :=
                   take SECTOR_HEADER_SIZE (drop SECTOR_SYNC_SIZE (m_sector_buffer s)),
                 m_last_sector_subheader :=
                   take SECTOR_SUBHEADER_SIZE
                     (drop (SECTOR_SYNC_SIZE + SECTOR_HEADER_SIZE) (m_sector_buffer s))\<rparr>;
         submode = subheader_submode (m_last_sector_subheader s1)
     in if mode_xa_enable (m_mode s1) \<and> header_sector_mode (m_last_sector_header s1) = 2
           \<and> submode_realtime submode \<and> submode_audio submode
        then
          let s2 = (if mode_xa_filter (m_mode s1)
                       \<and> (subheader_file_number (m_last_sector_subheader s1) \<noteq> m_filter_file_number s1
                          \<or> subheader_channel_number (m_last_sector_subheader s1)
                               \<noteq> m_filter_channel_number s1)
                    then s1
                    else ProcessXAADPCMSector env s1)
          in Inr (s2\<lparr>m_sector_buffer := []\<rparr>)
        else
          bindE (SetAsyncInterrupt INT1
                   (s1\<lparr>m_async_response_fifo := m_async_response_fifo s1 @ [m_secondary_status s1]\<rparr>))
            (\<lambda>s2. Inr (UpdateStatusRegister s2)))"

definition DoSectorRead :: "'img Externals \<Rightarrow> 'img CDROM \<Rightarrow> error + 'img CDROM" where
  "DoSectorRead env s =
    (let s1 = (if HasPendingAsyncInterrupt s then CancelAsyncInterrupt s else s)
     in if mode_ignore_bit (m_mode s1) then Inl Assert_not_ignore_bit
        else
          case m_media s1 of
            None \<Rightarrow> Inl Null_media
          | Some img \<Rightarrow>
              let (data, img') = img_Read env img;
                  s2 = s1\<lparr>m_sector_buffer :=
                            write_bytes (resize_buffer RAW_SECTOR_SIZE (m_sector_buffer s1)) data,
                          m_media := Some img'\<rparr>
              in bindE (if stat_reading (m_secondary_status s2) then ProcessDataSector env s2
                        else if stat_playing_cdda (m_secondary_status s2)
                        then Inr (ProcessCDDASector s2)
                        else Inl Panic_not_reading_or_playing)
                   (\<lambda>s3.
                      let s4 = s3\<lparr>m_read_or_seek_remaining_ticks :=
                                    m_read_or_seek_remaining_ticks s3 + GetTicksForRead env s3\<rparr>
                      in Inr (SetDowncount (m_read_or_seek_remaining_ticks s4) s4)))"

definition DoSeekComplete :: "'img Externals \<Rightarrow> 'img CDROM \<Rightarrow> error + 'img CDROM" where
  "DoSeekComplete env s =
    (if \<not> stat_seeking (m_secondary_status s) then Inl Assert_seeking
     else
       let s1 = s\<lparr>m_secondary_status := assign_bit 6 False (m_secondary_status s)\<rparr>;
           seek = (case m_media s1 of
                     None \<Rightarrow> (False, s1)
                   | Some img \<Rightarrow>
                       let (ok, img') = img_Seek env img (m_seek_position s1)
                       in (ok, s1\<lparr>m_media := Some img'\<rparr>));
           s2 = snd seek
       in bindE (if fst seek
                 then bindE (if m_play_after_seek s2 \<or> m_read_after_seek s2
                             then BeginReading env (m_play_after_seek s2) s2
                             else Inr s2)
                        (\<lambda>s3. bindE (SetAsyncInterrupt INT2
                                       (s3\<lparr>m_async_response_fifo :=
                                             m_async_response_fifo s3 @ [m_secondary_status s3]\<rparr>))
                                 (\<lambda>s4. Inr (UpdateStatusRegister s4)))
                 else SendAsyncErrorResponse 0x80 s2)
            (\<lambda>s5. Inr (s5\<lparr>m_setloc_pending := False,
                           m_read_after_seek := False,
                           m_play_after_seek := False\<rparr>)))"

section \<open>Commands\<close>

definition ExecuteTestCommand :: "u8 \<Rightarrow> 'img CDROM \<Rightarrow> 'img CDROM" where
  "ExecuteTestCommand subcommand s =
    (if subcommand = 0x20 then
       EndCommand (SetInterrupt ACK
         (s\<lparr>m_response_fifo := m_response_fifo s @ [0x94, 0x09, 0x19, 0xC0]\<rparr>))
     else if subcommand = 0x22 then
       EndCommand (SetInterrupt ACK
         (s\<lparr>m_response_fifo := m_response_fifo s @ [0x66, 0x6F, 0x72, 0x20, 0x55, 0x2F, 0x43]\<rparr>))
     else s)"

definition ExecuteCommand :: "'img Externals \<Rightarrow> 'img CDROM \<Rightarrow> error + 'img CDROM" where
  "ExecuteCommand env s =
    (case m_command s of
       Getstat \<Rightarrow> Inr (EndCommand (SendACKAndStat s))
     | Test \<Rightarrow>
         (case m_param_fifo s of
            [] \<Rightarrow> Inl Fifo_empty
          | subcommand # rest \<Rightarrow> Inr (ExecuteTestCommand subcommand (s\<lparr>m_param_fifo := rest\<rparr>)))
     | GetID \<Rightarrow>
         if m_command_stage s = 0 then
           if \<not> HasMedia s then
             Inr (EndCommand (SetInterrupt INT5
               (s\<lparr>m_response_fifo := m_response_fifo s @ [0x11, 0x80]\<rparr>)))
           else NextCommandStage env True 18000 (SendACKAndStat s)
         else
           Inr (EndCommand (SetInterrupt INT2
             (s\<lparr>m_response_fifo :=
                  m_response_fifo s @ [0x02, 0x00, 0x20, 0x00, 0x53, 0x43, 0x45, 0x41]\<rparr>)))
     | Setfilter \<Rightarrow>
         bindE (Peek (m_param_fifo s) 0) (\<lambda>file.
         bindE (Peek (m_param_fifo s) 1) (\<lambda>channel.
           Inr (EndCommand (SendACKAndStat
             (s\<lparr>m_filter_file_number := file, m_filter_channel_number := channel\<rparr>)))))
     | Setmode \<Rightarrow>
         bindE (Peek (m_param_fifo s) 0) (\<lambda>mode.
           Inr (EndCommand (SendACKAndStat (s\<lparr>m_mode := mode\<rparr>))))
     | Setloc \<Rightarrow>
         bindE (Peek (m_param_fifo s) 0) (\<lambda>mm.
         bindE (Peek (m_param_fifo s) 1) (\<lambda>ss.
         bindE (Peek (m_param_fifo s) 2) (\<lambda>ff.
           Inr (EndCommand (SendACKAndStat
             (s\<lparr>m_setloc_position :=
                    \<lparr>minute = ucast (BCDToDecimal mm), second = ucast (BCDToDecimal ss),
                     frame = ucast (BCDToDecimal ff)\<rparr>,
                  m_setloc_pending := True\<rparr>))))))
     | SeekL \<Rightarrow>
         if m_media s = None then Inr (EndCommand (SendErrorResponse 0x80 s))
         else bindE (BeginSeeking env (StopReading s)) (\<lambda>s1. Inr (EndCommand (SendACKAndStat s1)))
     | SeekP \<Rightarrow>
         if m_media s = None then Inr (EndCommand (SendErrorResponse 0x80 s))
         else bindE (BeginSeeking env (StopReading s)) (\<lambda>s1. Inr (EndCommand (SendACKAndStat s1)))
     | ReadN \<Rightarrow>
         if m_media s = None then Inr (EndCommand (SendErrorResponse 0x80 s))
         else bindE (BeginReading env False (StopReading s))
                (\<lambda>s1. Inr (EndCommand (SendACKAndStat s1)))
     | ReadS \<Rightarrow>
         if m_media s = None then Inr (EndCommand (SendErrorResponse 0x80 s))
         else bindE (BeginReading env False (StopReading s))
                (\<lambda>s1. Inr (EndCommand (SendACKAndStat s1)))
     | Play \<Rightarrow>
         bindE (if m_param_fifo s = [] then Inr 0 else Peek (m_param_fifo s) 0) (\<lambda>track.
           case m_media s of
             None \<Rightarrow> Inr (EndCommand (SendErrorResponse 0x80 s))
           | Some img \<Rightarrow>
               let s1 = (if track \<noteq> 0 then
                           let track' = (if ucast track > img_GetTrackCount env img
                                         then Truncate8 (img_GetTrackNumber env img) else track)
                           in s\<lparr>m_setloc_position := img_GetTrackStartMSFPosition env img track',
                                m_setloc_pending := True\<rparr>
                         else s)
               in bindE (BeginReading env True s1) (\<lambda>s2. Inr (EndCommand (SendACKAndStat s2))))
     | Pause \<Rightarrow>
         if m_command_stage s = 0 then
           let was_reading = IsReadingOrPlaying (m_secondary_status s)
           in NextCommandStage env True
                (if was_reading then (if mode_double_speed (m_mode s) then 2000000 else 1000000)
                 else 7000)
                (StopReading (SendACKAndStat s))
         else
           Inr (EndCommand (SetInterrupt INT2
             (s\<lparr>m_response_fifo := m_response_fifo s @ [m_secondary_status s]\<rparr>)))
     | Init \<Rightarrow>
         if m_command_stage s = 0 then
           NextCommandStage env True 8000 (StopReading (SendACKAndStat s))
         else
           let s1 = s\<lparr>m_mode := 0, m_secondary_status := assign_bit 1 True 0\<rparr>
           in Inr (EndCommand (SetInterrupt INT2
                (s1\<lparr>m_response_fifo := m_response_fifo s1 @ [m_secondary_status s1]\<rparr>)))
     | Mute \<Rightarrow> Inr (EndCommand (SendACKAndStat (s\<lparr>m_muted := True\<rparr>)))
     | Demute \<Rightarrow> Inr (EndCommand (SendACKAndStat (s\<lparr>m_muted := False\<rparr>)))
     | GetlocL \<Rightarrow>
         Inr (EndCommand (SetInterrupt ACK
           (s\<lparr>m_response_fifo :=
                m_response_fifo s @ m_last_sector_header s @ m_last_sector_subheader s\<rparr>)))
     | GetlocP \<Rightarrow>
         Inr (EndCommand (SetInterrupt ACK
           (s\<lparr>m_response_fifo :=
                m_response_fifo s @
                  [1, 1,
                   header_minute (m_last_sector_header s), header_second (m_last_sector_header s),
                   header_frame (m_last_sector_header s),
                   header_minute (m_last_sector_header s), header_second (m_last_sector_header s),
                   header_frame (m_last_sector_header s)]\<rparr>)))
     | GetTN \<Rightarrow>
         (case m_media s of
            Some img \<Rightarrow>
              Inr (EndCommand (SetInterrupt ACK
                (s\<lparr>m_response_fifo :=
                     m_response_fifo s @
                       [m_secondary_status s,
                        DecimalToBCD (Truncate8 (img_GetTrackNumber env img)),
                        DecimalToBCD (Truncate8 (img_GetTrackCount env img))]\<rparr>)))
          | None \<Rightarrow> Inr (EndCommand (SendErrorResponse 0x80 s)))
     | GetTD \<Rightarrow>
         if \<not> length (m_param_fifo s) \<ge> 1 then Inl Assert_GetTD_parameter
         else
           let track = BCDToDecimal (m_param_fifo s ! 0)
           in (case m_media s of
                 None \<Rightarrow> Inr (EndCommand (SendErrorResponse 0x80 s))
               | Some img \<Rightarrow>
                   if ucast track > img_GetTrackCount env img
                   then Inr (EndCommand (SendErrorResponse 0x10 s))
                   else
                     let pos = (if track = 0 then Position_FromLBA env (img_GetLBACount env img)
                                else img_GetTrackStartMSFPosition env img track)
                     in Inr (EndCommand (SetInterrupt ACK
                          (s\<lparr>m_response_fifo :=
                               m_response_fifo s @
                                 [m_secondary_status s,
                                  DecimalToBCD (Truncate8 (minute pos)),
                                  DecimalToBCD (Truncate8 (second pos))]\<rparr>))))
     | Sync \<Rightarrow> Inl Panic_unknown_command
     | Unknown v \<Rightarrow> Inl Panic_unknown_command)"

definition Execute :: "'img Externals \<Rightarrow> TickCount \<Rightarrow> 'img CDROM \<Rightarrow> error + 'img CDROM" where
  "Execute env ticks s =
    bindE (case m_command_state s of
             Idle \<Rightarrow> Inr s
           | WaitForIRQClear \<Rightarrow> Inr s
           | WaitForExecute \<Rightarrow>
               let s1 = s\<lparr>m_command_remaining_ticks := m_command_remaining_ticks s - ticks\<rparr>
               in if sint (m_command_remaining_ticks s1) \<le> 0 then ExecuteCommand env s1
                  else Inr (SetDowncount (m_command_remaining_ticks s1) s1))
      (\<lambda>s2.
         if IsActive (m_secondary_status s2) then
           let s3 = s2\<lparr>m_read_or_seek_remaining_ticks := m_read_or_seek_remaining_ticks s2 - ticks\<rparr>
           in if sint (m_read_or_seek_remaining_ticks s3) \<le> 0 then
                (if stat_seeking (m_secondary_status s3) then DoSeekComplete env s3
                 else DoSectorRead env s3)
              else Inr (SetDowncount (m_read_or_seek_remaining_ticks s3) s3)
         else Inr s2)"

definition BeginCommand :: "'img Externals \<Rightarrow> Command \<Rightarrow> 'img CDROM \<Rightarrow> error + 'img CDROM" where
  "BeginCommand env command s =
    bindE (Synchronize env (s\<lparr>m_response_fifo := []\<rparr>)) (\<lambda>s1.
      let s2 = s1\<lparr>m_command := command, m_command_stage := 0\<rparr>;
          s3 = s2\<lparr>m_command_remaining_ticks := GetAckDelayForCommand s2\<rparr>
      in if m_command_remaining_ticks s3 = 0 then ExecuteCommand env s3
         else Inr (UpdateStatusRegister
                (SetDowncount (m_command_remaining_ticks s3)
                   (s3\<lparr>m_command_state := WaitForExecute\<rparr>))))"

section \<open>Register window and DMA\<close>

definition ReadRegister :: "u32 \<Rightarrow> 'img CDROM \<Rightarrow> error + (u8 \<times> 'img CDROM)" where
  "ReadRegister offset s =
    (if offset = 0 then Inr (m_status s, s)
     else if offset = 1 then
       (case m_response_fifo s of
          [] \<Rightarrow> Inr (0xFF, s)
        | v # rest \<Rightarrow> Inr (v, UpdateStatusRegister (s\<lparr>m_response_fifo := rest\<rparr>)))
     else if offset = 2 then
       (case m_data_fifo s of
          [] \<Rightarrow> Inl Fifo_empty
        | v # rest \<Rightarrow> Inr (v, UpdateStatusRegister (s\<lparr>m_data_fifo := rest\<rparr>)))
     else if offset = 3 then
       (if status_index (m_status s) = 0 \<or> status_index (m_status s) = 2
        then Inr (m_interrupt_enable_register s OR NOT INTERRUPT_REGISTER_MASK, s)
        else Inr (m_interrupt_flag_register s OR NOT INTERRUPT_REGISTER_MASK, s))
     else Inl Panic_unknown_register)"

definition WriteRegister :: "'img Externals \<Rightarrow> u32 \<Rightarrow> u8 \<Rightarrow> 'img CDROM \<Rightarrow> error + 'img CDROM" where
  "WriteRegister env offset v s =
    (let index = status_index (m_status s) in
     if offset = 0 then Inr (s\<lparr>m_status := (m_status s AND NOT 3) OR (v AND 3)\<rparr>)
     else if offset = 1 then
       (if index = 0 then
          (if m_command_state s = Idle then BeginCommand env (Command_of_u8 v) s else Inr s)
        else if index = 1 then Inr s
        else if index = 2 then Inr s
        else Inr (s\<lparr>m_next_cd_audio_volume_matrix := (m_next_cd_audio_volume_matrix s)\<lparr>m10 := v\<rparr>\<rparr>))
     else if offset = 2 then
       (if index = 0 then
          let fifo = (if length (m_param_fifo s) = PARAM_FIFO_SIZE then tl (m_param_fifo s)
                      else m_param_fifo s)
          in Inr (UpdateStatusRegister (s\<lparr>m_param_fifo := fifo @ [v]\<rparr>))
        else if index = 1 then
          Inr (s\<lparr>m_interrupt_enable_register := v AND INTERRUPT_REGISTER_MASK\<rparr>)
        else if index = 2 then
          Inr (s\<lparr>m_next_cd_audio_volume_matrix := (m_next_cd_audio_volume_matrix s)\<lparr>m00 := v\<rparr>\<rparr>)
        else Inr (s\<lparr>m_next_cd_audio_volume_matrix := (m_next_cd_audio_volume_matrix s)\<lparr>m10 := v\<rparr>\<rparr>))
     else if offset = 3 then
       (if index = 0 then
          (if rr_SMEN v then Inl Assert_not_SMEN
           else bindE (if rr_BFRD v then LoadDataFIFO s else Inr (s\<lparr>m_data_fifo := []\<rparr>))
                  (\<lambda>s1. Inr (UpdateStatusRegister s1)))
        else if index = 1 then
          let s1 = s\<lparr>m_interrupt_flag_register :=
                       m_interrupt_flag_register s AND NOT (v AND INTERRUPT_REGISTER_MASK)\<rparr>
          in bindE (if m_interrupt_flag_register s1 = 0 then
                      (if m_command_state s1 = WaitForIRQClear then
                         bindE (Synchronize env s1) (\<lambda>s2.
                           let s3 = s2\<lparr>m_command_state := WaitForExecute\<rparr>
                           in Inr (SetDowncount (m_command_remaining_ticks s3) s3))
                       else if HasPendingAsyncInterrupt s1 then DeliverAsyncInterrupt s1
                       else Inr s1)
                    else Inr s1)
               (\<lambda>s4. if v AND 0x40 \<noteq> 0
                      then Inr (UpdateStatusRegister (s4\<lparr>m_param_fifo := []\<rparr>))
                      else Inr s4)
        else if index = 2 then
          Inr (s\<lparr>m_next_cd_audio_volume_matrix := (m_next_cd_audio_volume_matrix s)\<lparr>m01 := v\<rparr>\<rparr>)
        else
          let s1 = s\<lparr>m_adpcm_muted := (v AND 0x01 \<noteq> 0)\<rparr>
          in Inr (if v AND 0x20 \<noteq> 0
                  then s1\<lparr>m_cd_audio_volume_matrix := m_next_cd_audio_volume_matrix s1\<rparr>
                  else s1))
     else Inr s)"

text \<open>
  \<^verbatim>\<open>DMARead\<close> fills the words of the DMA engine, here the bytes \<open>words\<close>: zeros from the
  first word the FIFO cannot fill, then the bytes taken from the head of the FIFO.
\<close>

definition DMARead :: "u8 list \<Rightarrow> u32 \<Rightarrow> 'img CDROM \<Rightarrow> u8 list \<times> 'img CDROM" where
  "DMARead words word_count s =
    (let words_in_fifo = length (m_data_fifo s) div 4;
         words1 = (if words_in_fifo < unat word_count
                   then take (4 * words_in_fifo) words
                        @ replicate (4 * (unat word_count - words_in_fifo)) 0
                        @ drop (4 * unat word_count) words
                   else words);
         bytes_to_read = min (unat (word_count * 4)) (length (m_data_fifo s));
         words2 = take bytes_to_read (m_data_fifo s) @ drop bytes_to_read words1
     in (words2, s\<lparr>m_data_fifo := drop bytes_to_read (m_data_fifo s)\<rparr>))"

section \<open>Reset and media\<close>

definition SoftReset :: "'img CDROM \<Rightarrow> 'img CDROM" where
  "SoftReset s =
    UpdateStatusRegister
      (s\<lparr>m_command_state := Idle,
         m_command := Sync,
         m_command_stage := 0,
         m_command_remaining_ticks := 0,
         m_read_or_seek_remaining_ticks := 0,
         m_status := 0,
         m_secondary_status := 0,
         m_mode := 0,
         m_interrupt_enable_register := INTERRUPT_REGISTER_MASK,
         m_interrupt_flag_register := 0,
         m_pending_async_interrupt := 0,
         m_setloc_position := \<lparr>minute = 0, second = 0, frame = 0\<rparr>,
         m_seek_position := \<lparr>minute = 0, second = 0, frame = 0\<rparr>,
         m_setloc_pending := False,
         m_read_after_seek := False,
         m_play_after_seek := False,
         m_muted := False,
         m_adpcm_muted := False,
         m_filter_file_number := 0,
         m_filter_channel_number := 0,
         m_last_sector_header := replicate SECTOR_HEADER_SIZE 0,
         m_last_sector_subheader := replicate SECTOR_SUBHEADER_SIZE 0,
         m_next_cd_audio_volume_matrix := \<lparr>m00 = 0x80, m01 = 0x00, m10 = 0x00, m11 = 0x80\<rparr>,
         m_cd_audio_volume_matrix := \<lparr>m00 = 0x80, m01 = 0x00, m10 = 0x00, m11 = 0x80\<rparr>,
         m_xa_last_samples := map (\<lambda>x. 0) (m_xa_last_samples s),
         m_xa_resample_ring_buffer := (replicate 32 0, replicate 32 0),
         m_xa_resample_p := 0,
         m_xa_resample_sixstep := 6,
         m_param_fifo := [],
         m_response_fifo := [],
         m_async_response_fifo := [],
         m_data_fifo := [],
         m_sector_buffer := []\<rparr>)"

definition Reset :: "'img Externals \<Rightarrow> 'img CDROM \<Rightarrow> 'img CDROM" where
  "Reset env s =
    SoftReset (case m_media s of
                 None \<Rightarrow> s
               | Some img \<Rightarrow> s\<lparr>m_media := Some (snd (img_SeekLBA env img 0))\<rparr>)"

definition RemoveMedia :: "'img CDROM \<Rightarrow> 'img CDROM" where
  "RemoveMedia s = (if m_media s = None then s else s\<lparr>m_media := None\<rparr>)"

definition InsertMedia :: "'img Externals \<Rightarrow> string \<Rightarrow> 'img CDROM \<Rightarrow> bool \<times> 'img CDROM" where
  "InsertMedia env filename s =
    (case img_Open env filename of
       None \<Rightarrow> (False, s)
     | Some media \<Rightarrow> (True, (if HasMedia s then RemoveMedia s else s)\<lparr>m_media := Some media\<rparr>))"

section \<open>Runs of the controller\<close>

text \<open>
  A freshly constructed controller has no disc and has called none of its collaborators;
  \<^verbatim>\<open>Reset\<close> gives every other member its value. The host then reads and writes registers,
  reads by DMA, lets time pass, and changes or resets the disc.
\<close>

definition constructed :: "'img CDROM" where
  "constructed =
    \<lparr>m_media = None, m_command_state = Idle, m_command = Sync, m_command_stage = 0,
     m_command_remaining_ticks = 0, m_read_or_seek_remaining_ticks = 0, m_status = 0,
     m_secondary_status = 0, m_mode = 0, m_interrupt_enable_register = 0,
     m_interrupt_flag_register = 0, m_pending_async_interrupt = 0,
     m_setloc_position = \<lparr>minute = 0, second = 0, frame = 0\<rparr>,
     m_seek_position = \<lparr>minute = 0, second = 0, frame = 0\<rparr>,
     m_setloc_pending = False, m_read_after_seek = False, m_play_after_seek = False,
     m_muted = False, m_adpcm_muted = False, m_filter_file_number = 0,
     m_filter_channel_number = 0, m_last_sector_header = [], m_last_sector_subheader = [],
     m_cd_audio_volume_matrix = \<lparr>m00 = 0, m01 = 0, m10 = 0, m11 = 0\<rparr>,
     m_next_cd_audio_volume_matrix = \<lparr>m00 = 0, m01 = 0, m10 = 0, m11 = 0\<rparr>,
     m_xa_last_samples = replicate 4 0, m_xa_resample_ring_buffer = ([], []),
     m_xa_resample_p = 0, m_xa_resample_sixstep = 0, m_param_fifo = [], m_response_fifo = [],
     m_async_response_fifo = [], m_data_fifo = [], m_sector_buffer = [],
     dma_request = False, irq_requests = 0, downcounts = [], spu_calls = []\<rparr>"

definition power_on :: "'img CDROM" where
  "power_on = SoftReset constructed"

datatype host_op =
    Write_register u32 u8
  | Read_register u32
  | DMA_read u32
  | Run_ticks TickCount
  | Insert_media string
  | Remove_media
  | Reset_console

fun step :: "'img Externals \<Rightarrow> host_op \<Rightarrow> 'img CDROM \<Rightarrow> error + 'img CDROM" where
  "step env (Write_register offset v) s = WriteRegister env offset v s"
| "step env (Read_register offset) s = bindE (ReadRegister offset s) (\<lambda>r. Inr (snd r))"
| "step env (DMA_read word_count) s =
     Inr (snd (DMARead (replicate (4 * unat word_count) 0) word_count s))"
| "step env (Run_ticks ticks) s = Execute env ticks s"
| "step env (Insert_media filename) s = Inr (snd (InsertMedia env filename s))"
| "step env Remove_media s = Inr (RemoveMedia s)"
| "step env Reset_console s = Inr (Reset env s)"

fun run :: "'img Externals \<Rightarrow> host_op list \<Rightarrow> 'img CDROM \<Rightarrow> error + 'img CDROM" where
  "run env [] s = Inr s"
| "run env (x # xs) s = bindE (step env x s) (run env xs)"

definition reachable :: "'img Externals \<Rightarrow> 'img CDROM \<Rightarrow> bool" where
  "reachable env s = (\<exists>ops. run env ops power_on = Inr s)"

section \<open>A concrete disc\<close>

text \<open>
  For evaluation: a disc image that is its current sector address, whose sectors are all
  zero and whose one track begins at 00:02:00, positions counted as 75 frames to the second
  and 60 seconds to the minute, 4-bit ADPCM sectors of 4032 samples, the master clock of the
  console, and a scheduler with no ticks pending when it is asked to synchronize.
\<close>

definition msf_to_lba :: "Position \<Rightarrow> u32" where
  "msf_to_lba pos = minute pos * 4500 + second pos * 75 + frame pos"

definition lba_to_msf :: "u32 \<Rightarrow> Position" where
  "lba_to_msf lba = \<lparr>minute = lba div 4500, second = (lba div 75) mod 60, frame = lba mod 75\<rparr>"

definition zero_disc :: "u32 Externals" where
  "zero_disc =
    \<lparr>Synchronize = Inr,
     MASTER_CLOCK = 33868800,
     img_Open = (\<lambda>filename. Some 0),
     img_SeekLBA = (\<lambda>img lba. (True, lba)),
     img_Seek = (\<lambda>img pos. (True, msf_to_lba pos)),
     img_Read = (\<lambda>img. (replicate 2352 0, img + 1)),
     img_GetPositionOnDisc = (\<lambda>img. img),
     img_GetMSFPositionOnDisc = lba_to_msf,
     img_GetTrackNumber = (\<lambda>img. 1),
     img_GetTrackCount = (\<lambda>img. 1),
     img_GetTrackStartMSFPosition = (\<lambda>img track. \<lparr>minute = 0, second = 2, frame = 0\<rparr>),
     img_GetLBACount = (\<lambda>img. 333000),
     Position_ToLBA = msf_to_lba,
     Position_FromLBA = lba_to_msf,
     DecodeADPCMSector = (\<lambda>sector last_samples. (replicate 4032 0, last_samples)),
     codinginfo_IsStereo = (\<lambda>c. c AND 3 = 1),
     codinginfo_IsHalfSampleRate = (\<lambda>c. drop_bit 2 c AND 3 = 1),
     codinginfo_GetSamplesPerSector = (\<lambda>c. 4032)\<rparr>"

text \<open>The same surroundings with a scheduler that has 100 ticks to flush through \<^verbatim>\<open>Execute\<close>.\<close>

definition zero_disc_flushing :: "u32 Externals" where
  "zero_disc_flushing = zero_disc\<lparr>Synchronize := Execute zero_disc 100\<rparr>"

definition is_sample :: "spu_call \<Rightarrow> bool" where
  "is_sample c = (case c of AddCDAudioSample l r \<Rightarrow> True | EnsureCDAudioSpace n \<Rightarrow> False)"

definition count_samples :: "spu_call list \<Rightarrow> nat" where
  "count_samples calls = length (filter is_sample calls)"

section \<open>Basic facts\<close>

lemma bindE_Inl [simp]: "bindE (Inl e) f = Inl e"
  by (simp add: bindE_def)

lemma bindE_Inr [simp]: "bindE (Inr x) f = f x"
  by (simp add: bindE_def)

lemma bindE_eq_Inr: "bindE r f = Inr y \<longleftrightarrow> (\<exists>x. r = Inr x \<and> f x = Inr y)"
  by (cases r) simp_all

section \<open>Volume matrix on the two audio paths\<close>

text \<open>
  C3. The claim: the XA-ADPCM resampler and the CDDA path apply the same 2\<times>2 volume matrix,
  left = sat(l\<cdot>M[0][0]/128) + sat(r\<cdot>M[0][1]/128) and right = sat(l\<cdot>M[1][0]/128) +
  sat(r\<cdot>M[1][1]/128). The CDDA path does; the resampler takes \<^verbatim>\<open>volume_matrix[1][0]\<close> where
  the left output needs \<^verbatim>\<open>volume_matrix[0][1]\<close>. With the matrix M[0][0] = M[0][1] = M[1][1] =
  0x80, M[1][0] = 0 and the pair (0, 256) the resampler's left output is 0 and the CDDA
  path's is 256, so the two functions differ.
\<close>

theorem XA_volume_differs_from_CDDA_volume:
  "XA_volume \<lparr>m00 = 0x80, m01 = 0x80, m10 = 0, m11 = 0x80\<rparr> 0 0x100 = (0, 0x100)
   \<and> CDDA_volume \<lparr>m00 = 0x80, m01 = 0x80, m10 = 0, m11 = 0x80\<rparr> 0 0x100 = (0x100, 0x100)
   \<and> XA_volume \<noteq> CDDA_volume"
proof -
  let ?M = "\<lparr>m00 = 0x80, m01 = 0x80, m10 = 0, m11 = 0x80\<rparr>"
  have xa: "XA_volume ?M 0 0x100 = (0, 0x100)"
    by (simp add: XA_volume_def ApplyVolume_def clamp_s16_def)
  have cdda: "CDDA_volume ?M 0 0x100 = (0x100, 0x100)"
    by (simp add: CDDA_volume_def ApplyVolume_def clamp_s16_def)
  have "XA_volume ?M 0 0x100 \<noteq> CDDA_volume ?M 0 0x100"
    by (simp only: xa cdda) simp
  then have "XA_volume \<noteq> CDDA_volume"
    by metis
  with xa cdda show ?thesis
    by simp
qed

lemma power_on_eq:
  "(power_on :: 'img CDROM) =
    \<lparr>m_media = None, m_command_state = Idle, m_command = Sync, m_command_stage = 0,
     m_command_remaining_ticks = 0, m_read_or_seek_remaining_ticks = 0, m_status = 0x18,
     m_secondary_status = 0, m_mode = 0, m_interrupt_enable_register = 0x1F,
     m_interrupt_flag_register = 0, m_pending_async_interrupt = 0,
     m_setloc_position = \<lparr>minute = 0, second = 0, frame = 0\<rparr>,
     m_seek_position = \<lparr>minute = 0, second = 0, frame = 0\<rparr>,
     m_setloc_pending = False, m_read_after_seek = False, m_play_after_seek = False,
     m_muted = False, m_adpcm_muted = False, m_filter_file_number = 0,
     m_filter_channel_number = 0, m_last_sector_header = replicate 4 0,
     m_last_sector_subheader = replicate 8 0,
     m_cd_audio_volume_matrix = \<lparr>m00 = 0x80, m01 = 0, m10 = 0, m11 = 0x80\<rparr>,
     m_next_cd_audio_volume_matrix = \<lparr>m00 = 0x80, m01 = 0, m10 = 0, m11 = 0x80\<rparr>,
     m_xa_last_samples = replicate 4 0,
     m_xa_resample_ring_buffer = (replicate 32 0, replicate 32 0),
     m_xa_resample_p = 0, m_xa_resample_sixstep = 6, m_param_fifo = [], m_response_fifo = [],
     m_async_response_fifo = [], m_data_fifo = [], m_sector_buffer = [],
     dma_request = False, irq_requests = 0, downcounts = [], spu_calls = []\<rparr>"
  by (simp add: power_on_def SoftReset_def constructed_def UpdateStatusRegister_def Let_def
        assign_bit_def DRQSTS_def PARAM_FIFO_SIZE_def INTERRUPT_REGISTER_MASK_def
        SECTOR_HEADER_SIZE_def SECTOR_SUBHEADER_SIZE_def)

section \<open>Asynchronous interrupts\<close>

lemma SetAsyncInterrupt_eq:
  "SetAsyncInterrupt i s =
     (if m_pending_async_interrupt s \<noteq> 0 then Inl Assert_no_async_pending
      else if m_interrupt_flag_register s = 0
      then Inr (s\<lparr>m_response_fifo := m_async_response_fifo s, m_async_response_fifo := [],
                  m_interrupt_flag_register := interrupt_code i, m_pending_async_interrupt := 0,
                  irq_requests := Suc (irq_requests s)\<rparr>)
      else Inr (s\<lparr>m_pending_async_interrupt := interrupt_code i\<rparr>))"
  by (cases i)
     (simp_all add: SetAsyncInterrupt_def DeliverAsyncInterrupt_def HasPendingInterrupt_def
        InterruptRequest_def)

text \<open>
  C5. An asynchronous interrupt that is asserted (with none pending, as the source asserts)
  is delivered at once exactly when the interrupt-flag register is zero: the response FIFO
  becomes the content of the asynchronous FIFO, which is left empty, the code is latched into
  the flag register and one interrupt request is raised. Otherwise only its code is stored in
  \<^verbatim>\<open>m_pending_async_interrupt\<close>. No delivery happens while the flag register is not zero:
  \<^verbatim>\<open>DeliverAsyncInterrupt\<close> itself stops on its assertion there, and a host write to the
  flag register that leaves a flag standing delivers nothing.
\<close>

theorem async_interrupt_delivered_iff_no_flag:
  "SetAsyncInterrupt i s =
     (if m_pending_async_interrupt s \<noteq> 0 then Inl Assert_no_async_pending
      else if m_interrupt_flag_register s = 0
      then Inr (s\<lparr>m_response_fifo := m_async_response_fifo s, m_async_response_fifo := [],
                  m_interrupt_flag_register := interrupt_code i, m_pending_async_interrupt := 0,
                  irq_requests := Suc (irq_requests s)\<rparr>)
      else Inr (s\<lparr>m_pending_async_interrupt := interrupt_code i\<rparr>))
   \<and> (m_interrupt_flag_register s \<noteq> 0 \<longrightarrow> DeliverAsyncInterrupt s = Inl Assert_deliverable)
   \<and> (status_index (m_status s) = 1
        \<and> m_interrupt_flag_register s AND NOT (v AND INTERRUPT_REGISTER_MASK) \<noteq> 0 \<longrightarrow>
      (\<exists>s'. WriteRegister env 3 v s = Inr s'
        \<and> m_pending_async_interrupt s' = m_pending_async_interrupt s
        \<and> m_response_fifo s' = m_response_fifo s
        \<and> m_async_response_fifo s' = m_async_response_fifo s
        \<and> irq_requests s' = irq_requests s))"
proof (intro conjI impI)
  show "SetAsyncInterrupt i s =
     (if m_pending_async_interrupt s \<noteq> 0 then Inl Assert_no_async_pending
      else if m_interrupt_flag_register s = 0
      then Inr (s\<lparr>m_response_fifo := m_async_response_fifo s, m_async_response_fifo := [],
                  m_interrupt_flag_register := interrupt_code i, m_pending_async_interrupt := 0,
                  irq_requests := Suc (irq_requests s)\<rparr>)
      else Inr (s\<lparr>m_pending_async_interrupt := interrupt_code i\<rparr>))"
    by (rule SetAsyncInterrupt_eq)
next
  assume "m_interrupt_flag_register s \<noteq> 0"
  then show "DeliverAsyncInterrupt s = Inl Assert_deliverable"
    by (simp add: DeliverAsyncInterrupt_def HasPendingInterrupt_def)
next
  assume "status_index (m_status s) = 1
        \<and> m_interrupt_flag_register s AND NOT (v AND INTERRUPT_REGISTER_MASK) \<noteq> 0"
  then show "\<exists>s'. WriteRegister env 3 v s = Inr s'
        \<and> m_pending_async_interrupt s' = m_pending_async_interrupt s
        \<and> m_response_fifo s' = m_response_fifo s
        \<and> m_async_response_fifo s' = m_async_response_fifo s
        \<and> irq_requests s' = irq_requests s"
    by (simp add: WriteRegister_def Let_def UpdateStatusRegister_def)
qed

theorem async_interrupt_delivered_iff_no_flag_witness:
  "SetAsyncInterrupt INT1 (power_on\<lparr>m_async_response_fifo := [0x22]\<rparr> :: u32 CDROM) =
     Inr (power_on\<lparr>m_response_fifo := [0x22], m_interrupt_flag_register := 1, irq_requests := 1\<rparr>)
   \<and> SetAsyncInterrupt INT1
        (power_on\<lparr>m_status := 0x19, m_interrupt_flag_register := 3,
                   m_async_response_fifo := [0x22]\<rparr> :: u32 CDROM) =
     Inr (power_on\<lparr>m_status := 0x19, m_interrupt_flag_register := 3,
                    m_async_response_fifo := [0x22], m_pending_async_interrupt := 1\<rparr>)
   \<and> DeliverAsyncInterrupt
        (power_on\<lparr>m_status := 0x19, m_interrupt_flag_register := 3,
                   m_async_response_fifo := [0x22]\<rparr> :: u32 CDROM)
      = Inl Assert_deliverable
   \<and> (\<exists>s'. WriteRegister zero_disc 3 0x01
               (power_on\<lparr>m_status := 0x19, m_interrupt_flag_register := 3,
                          m_async_response_fifo := [0x22]\<rparr>) = Inr s'
          \<and> m_pending_async_interrupt s' = 0 \<and> m_response_fifo s' = []
          \<and> m_async_response_fifo s' = [0x22] \<and> irq_requests s' = 0)"
  using async_interrupt_delivered_iff_no_flag
          [of INT1 "power_on\<lparr>m_async_response_fifo := [0x22]\<rparr> :: u32 CDROM" 0 zero_disc]
        async_interrupt_delivered_iff_no_flag
          [of INT1 "power_on\<lparr>m_status := 0x19, m_interrupt_flag_register := 3,
                             m_async_response_fifo := [0x22]\<rparr> :: u32 CDROM" "0x01" zero_disc]
  by (simp add: power_on_eq status_index_def INTERRUPT_REGISTER_MASK_def)

section \<open>GetID\<close>

text \<open>
  C6. \<^verbatim>\<open>GetID\<close> is acknowledged after 4,000 ticks. At stage 0 without a disc the bytes
  0x11, 0x80 are pushed on the response FIFO with INT5 and the command ends (idle, command
  \<^verbatim>\<open>Sync\<close>, stage and ticks 0, parameter FIFO empty). At stage 0 with a disc the secondary
  status is pushed with ACK and stage 1 is set to run after 18,000 ticks, waiting for the
  host to clear the flag. At stage 1 the bytes 0x02, 0x00, 0x20, 0x00, 'S', 'C', 'E', 'A' are
  pushed with INT2 and the command ends.
\<close>

theorem GetID_stages:
  "(m_command s = GetID \<longrightarrow> GetAckDelayForCommand s = 4000)
   \<and> (m_command s = GetID \<and> m_command_stage s = 0 \<and> m_media s = None \<longrightarrow>
        (\<exists>s'. ExecuteCommand env s = Inr s'
          \<and> m_response_fifo s' = m_response_fifo s @ [0x11, 0x80]
          \<and> m_interrupt_flag_register s' = interrupt_code INT5
          \<and> irq_requests s' = Suc (irq_requests s)
          \<and> (m_command_state s', m_command s', m_command_stage s', m_command_remaining_ticks s',
              m_param_fifo s') = (Idle, Sync, 0, 0, [])))
   \<and> (m_command s = GetID \<and> m_command_stage s = 0 \<and> m_media s \<noteq> None \<longrightarrow>
        (\<exists>s'. ExecuteCommand env s = Inr s'
          \<and> m_response_fifo s' = m_response_fifo s @ [m_secondary_status s]
          \<and> m_interrupt_flag_register s' = interrupt_code ACK
          \<and> irq_requests s' = Suc (irq_requests s)
          \<and> (m_command_state s', m_command s', m_command_stage s', m_command_remaining_ticks s')
              = (WaitForIRQClear, GetID, 1, 18000)))
   \<and> (m_command s = GetID \<and> m_command_stage s \<noteq> 0 \<longrightarrow>
        (\<exists>s'. ExecuteCommand env s = Inr s'
          \<and> m_response_fifo s' = m_response_fifo s @ [0x02, 0x00, 0x20, 0x00] @ map of_char ''SCEA''
          \<and> m_interrupt_flag_register s' = interrupt_code INT2
          \<and> irq_requests s' = Suc (irq_requests s)
          \<and> (m_command_state s', m_command s', m_command_stage s', m_command_remaining_ticks s',
              m_param_fifo s') = (Idle, Sync, 0, 0, [])))"
proof (intro conjI impI)
  assume "m_command s = GetID"
  then show "GetAckDelayForCommand s = 4000"
    by (simp add: GetAckDelayForCommand_def)
next
  assume "m_command s = GetID \<and> m_command_stage s = 0 \<and> m_media s = None"
  then show "\<exists>s'. ExecuteCommand env s = Inr s'
          \<and> m_response_fifo s' = m_response_fifo s @ [0x11, 0x80]
          \<and> m_interrupt_flag_register s' = interrupt_code INT5
          \<and> irq_requests s' = Suc (irq_requests s)
          \<and> (m_command_state s', m_command s', m_command_stage s', m_command_remaining_ticks s',
              m_param_fifo s') = (Idle, Sync, 0, 0, [])"
    by (simp add: ExecuteCommand_def HasMedia_def EndCommand_def SetInterrupt_def
          HasPendingInterrupt_def InterruptRequest_def UpdateStatusRegister_def Let_def)
next
  assume "m_command s = GetID \<and> m_command_stage s = 0 \<and> m_media s \<noteq> None"
  then show "\<exists>s'. ExecuteCommand env s = Inr s'
          \<and> m_response_fifo s' = m_response_fifo s @ [m_secondary_status s]
          \<and> m_interrupt_flag_register s' = interrupt_code ACK
          \<and> irq_requests s' = Suc (irq_requests s)
          \<and> (m_command_state s', m_command s', m_command_stage s', m_command_remaining_ticks s')
              = (WaitForIRQClear, GetID, 1, 18000)"
    by (simp add: ExecuteCommand_def HasMedia_def NextCommandStage_def SendACKAndStat_def
          SetInterrupt_def HasPendingInterrupt_def InterruptRequest_def UpdateStatusRegister_def
          Let_def)
next
  assume "m_command s = GetID \<and> m_command_stage s \<noteq> 0"
  then show "\<exists>s'. ExecuteCommand env s = Inr s'
          \<and> m_response_fifo s' = m_response_fifo s @ [0x02, 0x00, 0x20, 0x00] @ map of_char ''SCEA''
          \<and> m_interrupt_flag_register s' = interrupt_code INT2
          \<and> irq_requests s' = Suc (irq_requests s)
          \<and> (m_command_state s', m_command s', m_command_stage s', m_command_remaining_ticks s',
              m_param_fifo s') = (Idle, Sync, 0, 0, [])"
    by (simp add: ExecuteCommand_def HasMedia_def EndCommand_def SetInterrupt_def
          HasPendingInterrupt_def InterruptRequest_def UpdateStatusRegister_def Let_def)
qed

theorem GetID_stages_witness:
  "GetAckDelayForCommand (power_on\<lparr>m_command := GetID\<rparr> :: u32 CDROM) = 4000
   \<and> (\<exists>s'. ExecuteCommand zero_disc (power_on\<lparr>m_command := GetID\<rparr>) = Inr s'
          \<and> m_response_fifo s' = [0x11, 0x80] \<and> m_interrupt_flag_register s' = 5
          \<and> m_command_state s' = Idle)
   \<and> (\<exists>s'. ExecuteCommand zero_disc (power_on\<lparr>m_command := GetID, m_media := Some 0\<rparr>) = Inr s'
          \<and> m_response_fifo s' = [0] \<and> m_interrupt_flag_register s' = 3
          \<and> m_command_state s' = WaitForIRQClear \<and> m_command_remaining_ticks s' = 18000)
   \<and> (\<exists>s'. ExecuteCommand zero_disc
               (power_on\<lparr>m_command := GetID, m_command_stage := 1, m_media := Some 0\<rparr>) = Inr s'
          \<and> m_response_fifo s' = [0x02, 0x00, 0x20, 0x00, 0x53, 0x43, 0x45, 0x41]
          \<and> m_interrupt_flag_register s' = 2 \<and> m_command_state s' = Idle)"
  using GetID_stages [of "power_on\<lparr>m_command := GetID\<rparr> :: u32 CDROM" zero_disc]
        GetID_stages [of "power_on\<lparr>m_command := GetID, m_media := Some 0\<rparr> :: u32 CDROM" zero_disc]
        GetID_stages [of "power_on\<lparr>m_command := GetID, m_command_stage := 1, m_media := Some 0\<rparr>
                           :: u32 CDROM" zero_disc]
  by (auto simp: power_on_eq)

section \<open>Seek time\<close>






section \<open>GetTD\<close>

text \<open>
  C8. \<^verbatim>\<open>GetTD\<close> with its parameter, the track number in BCD, on the parameter FIFO (the
  source asserts that it is there): without a disc the response is the secondary status with
  the error bit and the reason 0x80, with INT5; with the decoded track above the track count
  it is the same with the reason 0x10; otherwise it is the secondary status and the BCD minute
  and second of the end of the disc (track 0) or of the start of the track, with ACK. In
  every case the command ends.
\<close>

theorem GetTD_responses:
  assumes "m_command s = GetTD" and "m_param_fifo s \<noteq> []"
  shows "\<exists>s'. ExecuteCommand env s = Inr s'
     \<and> (m_command_state s', m_command s', m_command_stage s', m_command_remaining_ticks s',
         m_param_fifo s') = (Idle, Sync, 0, 0, [])
     \<and> irq_requests s' = Suc (irq_requests s)
     \<and> (case m_media s of
           None \<Rightarrow>
             m_response_fifo s' = m_response_fifo s @ [m_secondary_status s OR 0x01, 0x80]
             \<and> m_interrupt_flag_register s' = interrupt_code INT5
         | Some img \<Rightarrow>
             if ucast (BCDToDecimal (hd (m_param_fifo s))) > img_GetTrackCount env img
             then m_response_fifo s' = m_response_fifo s @ [m_secondary_status s OR 0x01, 0x10]
                  \<and> m_interrupt_flag_register s' = interrupt_code INT5
             else
               let pos = (if BCDToDecimal (hd (m_param_fifo s)) = 0
                          then Position_FromLBA env (img_GetLBACount env img)
                          else img_GetTrackStartMSFPosition env img
                                 (BCDToDecimal (hd (m_param_fifo s))))
               in m_response_fifo s' =
                    m_response_fifo s @ [m_secondary_status s,
                                         DecimalToBCD (Truncate8 (minute pos)),
                                         DecimalToBCD (Truncate8 (second pos))]
                  \<and> m_interrupt_flag_register s' = interrupt_code ACK)"
proof -
  from assms(2) have len: "\<not> \<not> 1 \<le> length (m_param_fifo s)"
    by (cases "m_param_fifo s") simp_all
  from assms(2) have hd: "m_param_fifo s ! 0 = hd (m_param_fifo s)"
    by (simp add: hd_conv_nth)
  show ?thesis
    using assms(1) len hd
    by (auto simp: ExecuteCommand_def EndCommand_def SendErrorResponse_def SetInterrupt_def
          HasPendingInterrupt_def InterruptRequest_def UpdateStatusRegister_def Let_def
          split: option.split)
qed

theorem GetTD_responses_witness:
  "m_command (power_on\<lparr>m_command := GetTD, m_param_fifo := [0x01], m_media := Some 0\<rparr> :: u32 CDROM)
     = GetTD
   \<and> (\<exists>s'. ExecuteCommand zero_disc (power_on\<lparr>m_command := GetTD, m_param_fifo := [0x01]\<rparr>) = Inr s'
          \<and> m_response_fifo s' = [0x01, 0x80] \<and> m_interrupt_flag_register s' = 5
          \<and> m_command_state s' = Idle)
   \<and> (\<exists>s'. ExecuteCommand zero_disc
               (power_on\<lparr>m_command := GetTD, m_param_fifo := [0x02], m_media := Some 0\<rparr>) = Inr s'
          \<and> m_response_fifo s' = [0x01, 0x10] \<and> m_interrupt_flag_register s' = 5
          \<and> m_command_state s' = Idle)
   \<and> (\<exists>s'. ExecuteCommand zero_disc
               (power_on\<lparr>m_command := GetTD, m_param_fifo := [0x01], m_media := Some 0\<rparr>) = Inr s'
          \<and> m_response_fifo s' = [0x00, 0x00, 0x02] \<and> m_interrupt_flag_register s' = 3
          \<and> m_command_state s' = Idle)
   \<and> (\<exists>s'. ExecuteCommand zero_disc
               (power_on\<lparr>m_command := GetTD, m_param_fifo := [0x00], m_media := Some 0\<rparr>) = Inr s'
          \<and> m_response_fifo s' = [0x00, 0x74, 0x00] \<and> m_interrupt_flag_register s' = 3
          \<and> m_command_state s' = Idle)"
  using GetTD_responses
          [of "power_on\<lparr>m_command := GetTD, m_param_fifo := [0x01]\<rparr> :: u32 CDROM" zero_disc]
        GetTD_responses
          [of "power_on\<lparr>m_command := GetTD, m_param_fifo := [0x02], m_media := Some 0\<rparr> :: u32 CDROM"
              zero_disc]
        GetTD_responses
          [of "power_on\<lparr>m_command := GetTD, m_param_fifo := [0x01], m_media := Some 0\<rparr> :: u32 CDROM"
              zero_disc]
        GetTD_responses
          [of "power_on\<lparr>m_command := GetTD, m_param_fifo := [0x00], m_media := Some 0\<rparr> :: u32 CDROM"
              zero_disc]
  by (auto simp: power_on_eq zero_disc_def lba_to_msf_def BCDToDecimal_def DecimalToBCD_def
        Truncate8_def)

section \<open>Sector reads and a pending asynchronous interrupt\<close>

lemma ProcessXAADPCMSector_interrupts:
  "m_pending_async_interrupt (ProcessXAADPCMSector env s) = m_pending_async_interrupt s"
  "m_async_response_fifo (ProcessXAADPCMSector env s) = m_async_response_fifo s"
  "m_interrupt_flag_register (ProcessXAADPCMSector env s) = m_interrupt_flag_register s"
  by (simp_all add: ProcessXAADPCMSector_def Let_def split: prod.split)

lemma ProcessCDDASector_interrupts:
  "m_pending_async_interrupt (ProcessCDDASector s) = m_pending_async_interrupt s"
  "m_async_response_fifo (ProcessCDDASector s) = m_async_response_fifo s"
  "m_interrupt_flag_register (ProcessCDDASector s) = m_interrupt_flag_register s"
  by (simp_all add: ProcessCDDASector_def Let_def)

lemma ProcessDataSector_none_pending:
  assumes "m_pending_async_interrupt s = 0" and "m_async_response_fifo s = []"
  shows "ProcessDataSector env s \<noteq> Inl Assert_no_async_pending"
    and "ProcessDataSector env s = Inr s' \<Longrightarrow>
           (m_pending_async_interrupt s' = 0 \<and> m_async_response_fifo s' = [])
           \<or> (m_pending_async_interrupt s' = interrupt_code INT1
               \<and> m_async_response_fifo s' = [m_secondary_status s])"
  using assms
  by (auto simp: ProcessDataSector_def Let_def SetAsyncInterrupt_eq UpdateStatusRegister_def
        ProcessXAADPCMSector_interrupts split: if_splits)

lemma DoSectorRead_none_pending:
  assumes "m_pending_async_interrupt s = 0" and "m_async_response_fifo s = []"
  shows "DoSectorRead env s \<noteq> Inl Assert_no_async_pending"
    and "DoSectorRead env s = Inr s' \<Longrightarrow>
           (m_pending_async_interrupt s' = 0 \<and> m_async_response_fifo s' = [])
           \<or> (m_pending_async_interrupt s' = interrupt_code INT1
               \<and> m_async_response_fifo s' = [m_secondary_status s])"
proof -
  show "DoSectorRead env s \<noteq> Inl Assert_no_async_pending"
  proof (cases "m_media s")
    case None
    then show ?thesis
      using assms by (simp add: DoSectorRead_def HasPendingAsyncInterrupt_def Let_def)
  next
    case (Some img)
    obtain data img' where r: "img_Read env img = (data, img')"
      by (cases "img_Read env img")
    let ?s2 = "s\<lparr>m_sector_buffer :=
                   write_bytes (resize_buffer RAW_SECTOR_SIZE (m_sector_buffer s)) data,
                 m_media := Some img'\<rparr>"
    have "ProcessDataSector env ?s2 \<noteq> Inl Assert_no_async_pending"
      using assms by (intro ProcessDataSector_none_pending(1)) simp_all
    then show ?thesis
      using assms Some r
      by (cases "ProcessDataSector env ?s2")
         (simp_all add: DoSectorRead_def HasPendingAsyncInterrupt_def Let_def)
  qed
next
  assume ok: "DoSectorRead env s = Inr s'"
  show "(m_pending_async_interrupt s' = 0 \<and> m_async_response_fifo s' = [])
           \<or> (m_pending_async_interrupt s' = interrupt_code INT1
               \<and> m_async_response_fifo s' = [m_secondary_status s])"
  proof (cases "m_media s")
    case None
    then show ?thesis
      using assms ok by (simp add: DoSectorRead_def HasPendingAsyncInterrupt_def Let_def split: if_splits)
  next
    case (Some img)
    obtain data img' where r: "img_Read env img = (data, img')"
      by (cases "img_Read env img")
    let ?s2 = "s\<lparr>m_sector_buffer :=
                   write_bytes (resize_buffer RAW_SECTOR_SIZE (m_sector_buffer s)) data,
                 m_media := Some img'\<rparr>"
    have pds: "\<And>s3. ProcessDataSector env ?s2 = Inr s3 \<Longrightarrow>
           (m_pending_async_interrupt s3 = 0 \<and> m_async_response_fifo s3 = [])
           \<or> (m_pending_async_interrupt s3 = interrupt_code INT1
               \<and> m_async_response_fifo s3 = [m_secondary_status s])"
      using ProcessDataSector_none_pending(2) [of ?s2 env] assms by simp
    from ok Some r assms obtain s3 where
      s3: "(stat_reading (m_secondary_status s) \<and> ProcessDataSector env ?s2 = Inr s3)
           \<or> (\<not> stat_reading (m_secondary_status s) \<and> s3 = ProcessCDDASector ?s2)"
      and s': "s' = SetDowncount (m_read_or_seek_remaining_ticks s3 + GetTicksForRead env s3)
                     (s3\<lparr>m_read_or_seek_remaining_ticks :=
                           m_read_or_seek_remaining_ticks s3 + GetTicksForRead env s3\<rparr>)"
      by (auto simp: DoSectorRead_def HasPendingAsyncInterrupt_def Let_def bindE_eq_Inr
            split: if_splits)
    from s3 have "(m_pending_async_interrupt s3 = 0 \<and> m_async_response_fifo s3 = [])
           \<or> (m_pending_async_interrupt s3 = interrupt_code INT1
               \<and> m_async_response_fifo s3 = [m_secondary_status s])"
      using pds assms by (auto simp: ProcessCDDASector_interrupts)
    then show ?thesis
      by (simp add: s' SetDowncount_def)
  qed
qed

text \<open>
  C9. When a sector read completes while an asynchronous interrupt is still pending, the
  controller first cancels it: \<^verbatim>\<open>DoSectorRead\<close> does exactly what it does from the state
  with the pending code 0 and the asynchronous response FIFO empty. So the assertion of
  \<^verbatim>\<open>SetAsyncInterrupt\<close> that nothing is pending is never hit by a sector read, and
  afterwards the asynchronous FIFO holds nothing of the cancelled interrupt: either nothing
  is pending and the FIFO is empty, or INT1 is pending with the one status byte of the new
  sector.
\<close>

theorem sector_read_cancels_pending_async:
  assumes "m_pending_async_interrupt s \<noteq> 0"
  shows "DoSectorRead env s =
           DoSectorRead env (s\<lparr>m_pending_async_interrupt := 0, m_async_response_fifo := []\<rparr>)
     \<and> DoSectorRead env s \<noteq> Inl Assert_no_async_pending
     \<and> (\<forall>s'. DoSectorRead env s = Inr s' \<longrightarrow>
           (m_pending_async_interrupt s' = 0 \<and> m_async_response_fifo s' = [])
           \<or> (m_pending_async_interrupt s' = interrupt_code INT1
               \<and> m_async_response_fifo s' = [m_secondary_status s]))"
proof -
  let ?c = "s\<lparr>m_pending_async_interrupt := 0, m_async_response_fifo := []\<rparr>"
  have eq: "DoSectorRead env s = DoSectorRead env ?c"
    using assms
    by (simp add: DoSectorRead_def HasPendingAsyncInterrupt_def CancelAsyncInterrupt_def)
  have "DoSectorRead env ?c \<noteq> Inl Assert_no_async_pending"
    by (rule DoSectorRead_none_pending(1)) simp_all
  moreover have "\<forall>s'. DoSectorRead env ?c = Inr s' \<longrightarrow>
           (m_pending_async_interrupt s' = 0 \<and> m_async_response_fifo s' = [])
           \<or> (m_pending_async_interrupt s' = interrupt_code INT1
               \<and> m_async_response_fifo s' = [m_secondary_status s])"
    using DoSectorRead_none_pending(2) [of ?c env] by simp
  ultimately show ?thesis
    using eq by simp
qed

theorem sector_read_cancels_pending_async_witness:
  "m_pending_async_interrupt
     (power_on\<lparr>m_media := Some 0, m_secondary_status := 0x22, m_interrupt_flag_register := 3,
                m_pending_async_interrupt := 1, m_async_response_fifo := [0x99]\<rparr> :: u32 CDROM) \<noteq> 0
   \<and> (\<exists>s'. DoSectorRead zero_disc
               (power_on\<lparr>m_media := Some 0, m_secondary_status := 0x22,
                          m_interrupt_flag_register := 3, m_pending_async_interrupt := 1,
                          m_async_response_fifo := [0x99]\<rparr>) = Inr s'
          \<and> m_pending_async_interrupt s' = 1 \<and> m_async_response_fifo s' = [0x22])"
proof -
  let ?s = "power_on\<lparr>m_media := Some 0, m_secondary_status := 0x22,
                     m_interrupt_flag_register := 3, m_pending_async_interrupt := 1,
                     m_async_response_fifo := [0x99]\<rparr> :: u32 CDROM"
  have run: "\<exists>s'. DoSectorRead zero_disc ?s = Inr s' \<and> m_interrupt_flag_register s' = 3"
    by (simp add: power_on_eq zero_disc_def DoSectorRead_def HasPendingAsyncInterrupt_def
          CancelAsyncInterrupt_def Let_def mode_ignore_bit_def stat_reading_def
          ProcessDataSector_def mode_xa_enable_def SetAsyncInterrupt_eq UpdateStatusRegister_def
          SetDowncount_def)
  then obtain s' where s': "DoSectorRead zero_disc ?s = Inr s'"
    and flag: "m_interrupt_flag_register s' = 3"
    by blast
  have pending: "m_pending_async_interrupt ?s \<noteq> 0"
    by simp
  from sector_read_cancels_pending_async [OF pending, of zero_disc] s'
  have "(m_pending_async_interrupt s' = 0 \<and> m_async_response_fifo s' = [])
        \<or> (m_pending_async_interrupt s' = 1 \<and> m_async_response_fifo s' = [0x22])"
    by simp
  moreover have "m_pending_async_interrupt s' \<noteq> 0"
    using s'
    by (auto simp: power_on_eq zero_disc_def DoSectorRead_def HasPendingAsyncInterrupt_def
          CancelAsyncInterrupt_def Let_def mode_ignore_bit_def stat_reading_def
          ProcessDataSector_def mode_xa_enable_def SetAsyncInterrupt_eq UpdateStatusRegister_def
          SetDowncount_def)
  ultimately show ?thesis
    using s' pending by auto
qed

section \<open>Mixer calls of an audio sector\<close>

lemma count_samples_append: "count_samples (xs @ ys) = count_samples xs + count_samples ys"
  by (simp add: count_samples_def)

lemma resample_phases_samples:
  "length (resample_phases STEREO M l r p) = 7"
  "count_samples (resample_phases STEREO M l r p) = 7"
proof -
  show "length (resample_phases STEREO M l r p) = 7"
    by (simp add: resample_phases_def)
  have "filter is_sample (resample_phases STEREO M l r p) = resample_phases STEREO M l r p"
    by (rule filter_True)
       (auto simp: resample_phases_def is_sample_def Let_def split: prod.split)
  then show "count_samples (resample_phases STEREO M l r p) = 7"
    by (simp add: count_samples_def resample_phases_def)
qed

text \<open>
  One store counts \<^verbatim>\<open>sixstep\<close> down from a value between 1 and 6 and adds seven calls when
  it reaches zero. With \<open>6 - sixstep\<close> stores behind it since the last seven calls, \<open>k\<close>
  further stores add \<open>7 * ((6 - sixstep + k) div 6)\<close> calls.
\<close>

lemma resample_store_calls:
  assumes "1 \<le> unat (rs_sixstep rs)" and "unat (rs_sixstep rs) \<le> 6"
  shows "1 \<le> unat (rs_sixstep (resample_store STEREO M l r rs))"
    and "unat (rs_sixstep (resample_store STEREO M l r rs)) \<le> 6"
    and "6 - unat (rs_sixstep (resample_store STEREO M l r rs))
           = (6 - unat (rs_sixstep rs) + 1) mod 6"
    and "\<exists>adds. rs_spu (resample_store STEREO M l r rs) = rs_spu rs @ adds
           \<and> length adds = 7 * ((6 - unat (rs_sixstep rs) + 1) div 6)
           \<and> count_samples adds = length adds"
proof -
  from assms(1) have nz: "rs_sixstep rs \<noteq> 0"
    by (auto simp: unat_eq_0)
  then have dec: "unat (rs_sixstep rs - 1) = unat (rs_sixstep rs) - 1"
    by (simp add: unat_minus_one)
  have zero_iff: "rs_sixstep rs - 1 = 0 \<longleftrightarrow> unat (rs_sixstep rs) = 1"
    using dec assms(1) by (auto simp: unat_eq_0 [symmetric])
  show "1 \<le> unat (rs_sixstep (resample_store STEREO M l r rs))"
    using assms dec zero_iff by (auto simp: resample_store_def Let_def)
  show "unat (rs_sixstep (resample_store STEREO M l r rs)) \<le> 6"
    using assms dec zero_iff by (auto simp: resample_store_def Let_def)
  show "6 - unat (rs_sixstep (resample_store STEREO M l r rs))
           = (6 - unat (rs_sixstep rs) + 1) mod 6"
    using assms dec zero_iff by (auto simp: resample_store_def Let_def)
  show "\<exists>adds. rs_spu (resample_store STEREO M l r rs) = rs_spu rs @ adds
           \<and> length adds = 7 * ((6 - unat (rs_sixstep rs) + 1) div 6)
           \<and> count_samples adds = length adds"
  proof (cases "unat (rs_sixstep rs) = 1")
    case True
    then show ?thesis
      using zero_iff by (simp add: resample_store_def Let_def resample_phases_samples)
  next
    case False
    with assms have "(6 - unat (rs_sixstep rs) + 1) div 6 = 0"
      by simp
    with False show ?thesis
      using zero_iff by (simp add: resample_store_def Let_def count_samples_def)
  qed
qed

lemma phase_step: "((c + 1) mod 6 + k) div 6 + (c + 1) div 6 = (c + Suc k) div (6::nat)"
  "((c + 1) mod 6 + k) mod 6 = (c + Suc k) mod (6::nat)"
proof -
  have "c + Suc k = (c + 1) mod 6 + k + 6 * ((c + 1) div 6)"
    by simp
  then show "((c + 1) mod 6 + k) div 6 + (c + 1) div 6 = (c + Suc k) div (6::nat)"
    by (metis add.commute div_mult_self2 zero_neq_numeral)
  show "((c + 1) mod 6 + k) mod 6 = (c + Suc k) mod (6::nat)"
    by (simp add: mod_simps)
qed

lemma resample_dup_calls:
  assumes "1 \<le> unat (rs_sixstep rs)" and "unat (rs_sixstep rs) \<le> 6"
  shows "1 \<le> unat (rs_sixstep (resample_dup k STEREO M l r rs))
     \<and> unat (rs_sixstep (resample_dup k STEREO M l r rs)) \<le> 6
     \<and> 6 - unat (rs_sixstep (resample_dup k STEREO M l r rs))
           = (6 - unat (rs_sixstep rs) + k) mod 6
     \<and> (\<exists>adds. rs_spu (resample_dup k STEREO M l r rs) = rs_spu rs @ adds
           \<and> length adds = 7 * ((6 - unat (rs_sixstep rs) + k) div 6)
           \<and> count_samples adds = length adds)"
  using assms
proof (induction k arbitrary: rs)
  case 0
  then show ?case by (simp add: count_samples_def)
next
  case (Suc k)
  let ?rs1 = "resample_store STEREO M l r rs"
  let ?c = "6 - unat (rs_sixstep rs)"
  note st = resample_store_calls [OF Suc.prems, of STEREO M l r]
  from Suc.IH [OF st(1) st(2)]
  obtain adds2 where
    a: "1 \<le> unat (rs_sixstep (resample_dup k STEREO M l r ?rs1))"
       "unat (rs_sixstep (resample_dup k STEREO M l r ?rs1)) \<le> 6"
       "6 - unat (rs_sixstep (resample_dup k STEREO M l r ?rs1))
          = (6 - unat (rs_sixstep ?rs1) + k) mod 6"
       "rs_spu (resample_dup k STEREO M l r ?rs1) = rs_spu ?rs1 @ adds2"
       "length adds2 = 7 * ((6 - unat (rs_sixstep ?rs1) + k) div 6)"
       "count_samples adds2 = length adds2"
    by blast
  from st(4) obtain adds1 where
    b: "rs_spu ?rs1 = rs_spu rs @ adds1" "length adds1 = 7 * ((?c + 1) div 6)"
       "count_samples adds1 = length adds1"
    by blast
  have len: "length (adds1 @ adds2) = 7 * ((?c + Suc k) div 6)"
    using a(5) b(2) st(3) phase_step(1) [of ?c k] by simp
  have "rs_spu (resample_dup (Suc k) STEREO M l r rs) = rs_spu rs @ (adds1 @ adds2)"
    using a(4) b(1) by simp
  moreover have "count_samples (adds1 @ adds2) = length (adds1 @ adds2)"
    using a(6) b(3) by (simp add: count_samples_append)
  moreover have "6 - unat (rs_sixstep (resample_dup (Suc k) STEREO M l r rs)) = (?c + Suc k) mod 6"
    using a(3) st(3) phase_step(2) [of ?c k] by simp
  ultimately show ?case
    using a(1,2) len by auto
qed

lemma phase_add:
  "((c + d) mod 6 + m) div 6 + (c + d) div 6 = (c + (d + m)) div (6::nat)"
  "((c + d) mod 6 + m) mod 6 = (c + (d + m)) mod (6::nat)"
proof -
  have "c + (d + m) = (c + d) mod 6 + m + 6 * ((c + d) div 6)"
    by simp
  then show "((c + d) mod 6 + m) div 6 + (c + d) div 6 = (c + (d + m)) div (6::nat)"
    by (metis add.commute div_mult_self2 zero_neq_numeral)
  show "((c + d) mod 6 + m) mod 6 = (c + (d + m)) mod (6::nat)"
    by (simp add: mod_simps add.assoc)
qed

lemma resample_samples_calls:
  assumes "1 \<le> unat (rs_sixstep rs)" and "unat (rs_sixstep rs) \<le> 6"
  shows "1 \<le> unat (rs_sixstep (resample_samples STEREO RATE M xs i n rs))
     \<and> unat (rs_sixstep (resample_samples STEREO RATE M xs i n rs)) \<le> 6
     \<and> 6 - unat (rs_sixstep (resample_samples STEREO RATE M xs i n rs))
           = (6 - unat (rs_sixstep rs) + n * (if RATE then 2 else 1)) mod 6
     \<and> (\<exists>adds. rs_spu (resample_samples STEREO RATE M xs i n rs) = rs_spu rs @ adds
           \<and> length adds = 7 * ((6 - unat (rs_sixstep rs) + n * (if RATE then 2 else 1)) div 6)
           \<and> count_samples adds = length adds)"
  using assms
proof (induction n arbitrary: rs i)
  case 0
  then show ?case by (simp add: count_samples_def)
next
  case (Suc n)
  let ?d = "if RATE then 2 else 1 :: nat"
  let ?l = "xs ! i"
  let ?r = "if STEREO then xs ! (i + 1) else xs ! i"
  let ?i' = "if STEREO then i + 2 else i + 1"
  let ?rs1 = "resample_dup ?d STEREO M ?l ?r rs"
  let ?c = "6 - unat (rs_sixstep rs)"
  have unfold: "resample_samples STEREO RATE M xs i (Suc n) rs
                  = resample_samples STEREO RATE M xs ?i' n ?rs1"
    by (simp add: Let_def)
  from resample_dup_calls [OF Suc.prems, of ?d STEREO M ?l ?r]
  obtain adds1 where
    b: "1 \<le> unat (rs_sixstep ?rs1)" "unat (rs_sixstep ?rs1) \<le> 6"
       "6 - unat (rs_sixstep ?rs1) = (?c + ?d) mod 6"
       "rs_spu ?rs1 = rs_spu rs @ adds1" "length adds1 = 7 * ((?c + ?d) div 6)"
       "count_samples adds1 = length adds1"
    by blast
  from Suc.IH [OF b(1) b(2), of ?i']
  obtain adds2 where
    a: "1 \<le> unat (rs_sixstep (resample_samples STEREO RATE M xs ?i' n ?rs1))"
       "unat (rs_sixstep (resample_samples STEREO RATE M xs ?i' n ?rs1)) \<le> 6"
       "6 - unat (rs_sixstep (resample_samples STEREO RATE M xs ?i' n ?rs1))
          = (6 - unat (rs_sixstep ?rs1) + n * ?d) mod 6"
       "rs_spu (resample_samples STEREO RATE M xs ?i' n ?rs1) = rs_spu ?rs1 @ adds2"
       "length adds2 = 7 * ((6 - unat (rs_sixstep ?rs1) + n * ?d) div 6)"
       "count_samples adds2 = length adds2"
    by blast
  have idx: "?d + n * ?d = Suc n * ?d"
    by simp
  have len: "length (adds1 @ adds2) = 7 * ((?c + Suc n * ?d) div 6)"
    using a(5) b(5) b(3) phase_add(1) [of ?c ?d "n * ?d"] unfolding idx by simp
  have ph: "6 - unat (rs_sixstep (resample_samples STEREO RATE M xs ?i' n ?rs1))
              = (?c + Suc n * ?d) mod 6"
    using a(3) b(3) phase_add(2) [of ?c ?d "n * ?d"] unfolding idx by simp
  have spu: "rs_spu (resample_samples STEREO RATE M xs ?i' n ?rs1) = rs_spu rs @ (adds1 @ adds2)"
    using a(4) b(4) by simp
  have cnt: "count_samples (adds1 @ adds2) = length (adds1 @ adds2)"
    using a(6) b(6) by (simp add: count_samples_append)
  show ?case
    unfolding unfold using a(1,2) ph spu cnt len by blast
qed

lemma CDDA_samples_calls:
  "length (CDDA_samples M buf sector_ptr n) = n"
  "count_samples (CDDA_samples M buf sector_ptr n) = n"
proof -
  show "length (CDDA_samples M buf sector_ptr n) = n"
    by (induction n arbitrary: sector_ptr) (simp_all add: Let_def split: prod.split)
  show "count_samples (CDDA_samples M buf sector_ptr n) = n"
    by (induction n arbitrary: sector_ptr)
       (simp_all add: Let_def count_samples_def is_sample_def split: prod.split)
qed

lemma ProcessXAADPCMSector_calls:
  assumes "\<not> m_muted s" and "\<not> m_adpcm_muted s"
      and "1 \<le> unat (m_xa_resample_sixstep s)" and "unat (m_xa_resample_sixstep s) \<le> 6"
  shows "\<exists>adds. spu_calls (ProcessXAADPCMSector env s) =
           spu_calls s
           @ [EnsureCDAudioSpace
                (if codinginfo_IsStereo env (subheader_codinginfo (m_last_sector_subheader s))
                 then codinginfo_GetSamplesPerSector env
                        (subheader_codinginfo (m_last_sector_subheader s)) div 2
                 else codinginfo_GetSamplesPerSector env
                        (subheader_codinginfo (m_last_sector_subheader s)))]
           @ adds
         \<and> count_samples adds = length adds
         \<and> length adds =
             7 * ((6 - unat (m_xa_resample_sixstep s)
                   + unat (if codinginfo_IsStereo env (subheader_codinginfo (m_last_sector_subheader s))
                           then codinginfo_GetSamplesPerSector env
                                  (subheader_codinginfo (m_last_sector_subheader s)) div 2
                           else codinginfo_GetSamplesPerSector env
                                  (subheader_codinginfo (m_last_sector_subheader s)))
                     * (if codinginfo_IsHalfSampleRate env
                             (subheader_codinginfo (m_last_sector_subheader s))
                        then 2 else 1)) div 6)"
proof -
  obtain buf last where dec:
    "DecodeADPCMSector env (m_sector_buffer s) (m_xa_last_samples s) = (buf, last)"
    by (cases "DecodeADPCMSector env (m_sector_buffer s) (m_xa_last_samples s)")
  let ?ci = "subheader_codinginfo (m_last_sector_subheader s)"
  let ?n = "if codinginfo_IsStereo env ?ci then codinginfo_GetSamplesPerSector env ?ci div 2
            else codinginfo_GetSamplesPerSector env ?ci"
  let ?rs = "\<lparr>rs_spu = spu_calls s @ [EnsureCDAudioSpace ?n],
              rs_left = fst (m_xa_resample_ring_buffer s),
              rs_right = snd (m_xa_resample_ring_buffer s),
              rs_p = m_xa_resample_p s,
              rs_sixstep = m_xa_resample_sixstep s\<rparr>"
  have eq: "spu_calls (ProcessXAADPCMSector env s) =
              rs_spu (resample_samples (codinginfo_IsStereo env ?ci)
                        (codinginfo_IsHalfSampleRate env ?ci) (m_cd_audio_volume_matrix s)
                        buf 0 (unat ?n) ?rs)"
    using assms(1,2) dec
    by (simp add: ProcessXAADPCMSector_def ResampleXAADPCM_def Let_def)
  have r1: "1 \<le> unat (rs_sixstep ?rs)" and r2: "unat (rs_sixstep ?rs) \<le> 6"
    using assms(3,4) by simp_all
  from resample_samples_calls [OF r1 r2, of "codinginfo_IsStereo env ?ci"
         "codinginfo_IsHalfSampleRate env ?ci" "m_cd_audio_volume_matrix s" buf 0 "unat ?n"]
  obtain adds where
    a: "rs_spu (resample_samples (codinginfo_IsStereo env ?ci)
                  (codinginfo_IsHalfSampleRate env ?ci) (m_cd_audio_volume_matrix s)
                  buf 0 (unat ?n) ?rs) = rs_spu ?rs @ adds"
       "length adds = 7 * ((6 - unat (rs_sixstep ?rs)
                            + unat ?n * (if codinginfo_IsHalfSampleRate env ?ci then 2 else 1)) div 6)"
       "count_samples adds = length adds"
    by blast
  have "spu_calls (ProcessXAADPCMSector env s) = spu_calls s @ [EnsureCDAudioSpace ?n] @ adds"
    unfolding eq a(1) by simp
  moreover have "length adds = 7 * ((6 - unat (m_xa_resample_sixstep s)
                            + unat ?n * (if codinginfo_IsHalfSampleRate env ?ci then 2 else 1)) div 6)"
    using a(2) by simp
  ultimately show ?thesis
    using a(3) by blast
qed

text \<open>
  C4. The claim: for every processed audio sector the number of \<^verbatim>\<open>AddCDAudioSample\<close> calls
  equals the \<open>n\<close> of the preceding \<^verbatim>\<open>EnsureCDAudioSpace(n)\<close>. A CDDA sector does so: 588
  reserved, 588 added. An XA-ADPCM sector does not: the number reserved is the number of
  input samples, and the resampler adds seven pairs for every six it stores. For a stereo
  sector of 4032 4-bit samples at the full rate, after a reset, 2016 slots are reserved and
  2352 pairs are added.
\<close>

theorem XA_sector_adds_more_than_ensured:
  "hd (spu_calls (ProcessXAADPCMSector zero_disc
         (power_on\<lparr>m_sector_buffer := replicate 2352 0,
                    m_last_sector_subheader := [1, 1, 0x64, 0x01, 1, 1, 0x64, 0x01]\<rparr>)))
     = EnsureCDAudioSpace 2016
   \<and> length (tl (spu_calls (ProcessXAADPCMSector zero_disc
         (power_on\<lparr>m_sector_buffer := replicate 2352 0,
                    m_last_sector_subheader := [1, 1, 0x64, 0x01, 1, 1, 0x64, 0x01]\<rparr>)))) = 2352
   \<and> count_samples (tl (spu_calls (ProcessXAADPCMSector zero_disc
         (power_on\<lparr>m_sector_buffer := replicate 2352 0,
                    m_last_sector_subheader := [1, 1, 0x64, 0x01, 1, 1, 0x64, 0x01]\<rparr>)))) = 2352
   \<and> hd (spu_calls (ProcessCDDASector (power_on\<lparr>m_sector_buffer := replicate 2352 0\<rparr> :: u32 CDROM)))
     = EnsureCDAudioSpace 588
   \<and> length (tl (spu_calls (ProcessCDDASector
         (power_on\<lparr>m_sector_buffer := replicate 2352 0\<rparr> :: u32 CDROM)))) = 588
   \<and> count_samples (tl (spu_calls (ProcessCDDASector
         (power_on\<lparr>m_sector_buffer := replicate 2352 0\<rparr> :: u32 CDROM)))) = 588"
proof -
  let ?s = "power_on\<lparr>m_sector_buffer := replicate 2352 0,
                     m_last_sector_subheader := [1, 1, 0x64, 0x01, 1, 1, 0x64, 0x01]\<rparr> :: u32 CDROM"
  have "\<not> m_muted ?s" "\<not> m_adpcm_muted ?s"
       "1 \<le> unat (m_xa_resample_sixstep ?s)" "unat (m_xa_resample_sixstep ?s) \<le> 6"
    by (simp_all add: power_on_eq)
  from ProcessXAADPCMSector_calls [OF this, of zero_disc]
  obtain adds where
    xa: "spu_calls (ProcessXAADPCMSector zero_disc ?s) = EnsureCDAudioSpace 2016 # adds"
        "count_samples adds = length adds" "length adds = 2352"
    by (auto simp: power_on_eq zero_disc_def subheader_codinginfo_def)
  have cdda: "spu_calls (ProcessCDDASector (power_on\<lparr>m_sector_buffer := replicate 2352 0\<rparr> :: u32 CDROM))
      = EnsureCDAudioSpace 588
        # CDDA_samples \<lparr>m00 = 0x80, m01 = 0, m10 = 0, m11 = 0x80\<rparr> (replicate 2352 0) 0 588"
    by (simp add: ProcessCDDASector_def power_on_eq RAW_SECTOR_SIZE_def Let_def)
  show ?thesis
    unfolding xa(1) cdda using xa(2,3) by (simp add: CDDA_samples_calls)
qed

section \<open>Status byte\<close>

text \<open>
  C2. The claim: in every reachable state \<^verbatim>\<open>BUSYSTS\<close> equals
  \<open>command_state = WaitForExecute\<close>, also right after the host write that clears the flag
  register and moves a command from \<^verbatim>\<open>WaitForIRQClear\<close> to \<^verbatim>\<open>WaitForExecute\<close>. That write
  changes the command state and does not update the status byte. With a disc inserted, the
  host writes \<^verbatim>\<open>GetID\<close> (0x1A), 4,000 ticks pass (stage 0: ACK, wait for the flag to be
  cleared), the host selects index 1 and writes 0x1F to the flag register: the command state
  is \<^verbatim>\<open>WaitForExecute\<close> and \<^verbatim>\<open>BUSYSTS\<close> is still clear.
\<close>

theorem BUSYSTS_stale_after_flag_clear:
  "(case run zero_disc
           [Insert_media ''disc'', Write_register 1 0x1A, Run_ticks 4000,
            Write_register 0 1, Write_register 3 0x1F]
           power_on of
      Inl e \<Rightarrow> False
    | Inr s \<Rightarrow> m_command_state s = WaitForExecute \<and> \<not> BUSYSTS (m_status s)
               \<and> m_interrupt_flag_register s = 0)"
  by (simp add: power_on_eq zero_disc_def InsertMedia_def HasMedia_def WriteRegister_def
        status_index_def BeginCommand_def Command_of_u8_def GetAckDelayForCommand_def
        SetDowncount_def UpdateStatusRegister_def assign_bit_def DRQSTS_def BUSYSTS_def
        PARAM_FIFO_SIZE_def Execute_def ExecuteCommand_def SendACKAndStat_def SetInterrupt_def
        HasPendingInterrupt_def InterruptRequest_def NextCommandStage_def IsActive_def
        stat_seeking_def stat_reading_def stat_playing_cdda_def INTERRUPT_REGISTER_MASK_def
        Let_def)

text \<open>
  C1. The claim: in every reachable state \<^verbatim>\<open>DRQSTS\<close> equals (data FIFO not empty) and the
  DMA request line equals \<^verbatim>\<open>DRQSTS\<close>, also right after a \<^verbatim>\<open>DMARead\<close>. \<^verbatim>\<open>DMARead\<close> takes
  bytes from the data FIFO and does not update the status byte or the request line. With a
  disc inserted, the host writes \<^verbatim>\<open>ReadN\<close> (0x06), the command runs after 4,000 ticks, the
  first sector arrives, the host requests the buffer (\<^verbatim>\<open>BFRD\<close>), which loads 2048 bytes, and
  the DMA engine reads 512 words: the FIFO is empty, and \<^verbatim>\<open>DRQSTS\<close> and the request line
  are still set.
\<close>

theorem DRQSTS_stale_after_DMARead:
  "(case run zero_disc
           [Insert_media ''disc'', Write_register 1 0x06, Run_ticks 4000, Run_ticks 447584,
            Write_register 3 0x80, DMA_read 512]
           power_on of
      Inl e \<Rightarrow> False
    | Inr s \<Rightarrow> m_data_fifo s = [] \<and> DRQSTS (m_status s) \<and> dma_request s)"
  by (simp add: power_on_eq zero_disc_def InsertMedia_def HasMedia_def WriteRegister_def
        status_index_def BeginCommand_def Command_of_u8_def GetAckDelayForCommand_def
        SetDowncount_def UpdateStatusRegister_def assign_bit_def DRQSTS_def BUSYSTS_def
        PARAM_FIFO_SIZE_def Execute_def ExecuteCommand_def SendACKAndStat_def SetInterrupt_def
        HasPendingInterrupt_def InterruptRequest_def IsActive_def EndCommand_def
        StopReading_def BeginReading_def BeginReading_in_position_def GetTicksForRead_def
        mode_double_speed_def c_div_def
        stat_seeking_def stat_reading_def stat_playing_cdda_def INTERRUPT_REGISTER_MASK_def
        DoSectorRead_def HasPendingAsyncInterrupt_def mode_ignore_bit_def resize_buffer_def
        write_bytes_def RAW_SECTOR_SIZE_def ProcessDataSector_def SECTOR_HEADER_SIZE_def
        SECTOR_SUBHEADER_SIZE_def SECTOR_SYNC_SIZE_def mode_xa_enable_def SetAsyncInterrupt_eq
        rr_SMEN_def rr_BFRD_def LoadDataFIFO_def mode_read_raw_sector_def DATA_SECTOR_SIZE_def
        DATA_FIFO_SIZE_def DMARead_def
        Let_def)

section \<open>The staged volume matrix\<close>

lemma staged_matrix_kept:
  "m_next_cd_audio_volume_matrix (UpdateStatusRegister s) = m_next_cd_audio_volume_matrix s"
  "m_next_cd_audio_volume_matrix (SetDowncount t s) = m_next_cd_audio_volume_matrix s"
  "m_next_cd_audio_volume_matrix (InterruptRequest s) = m_next_cd_audio_volume_matrix s"
  "m_next_cd_audio_volume_matrix (SetInterrupt i s) = m_next_cd_audio_volume_matrix s"
  "m_next_cd_audio_volume_matrix (CancelAsyncInterrupt s) = m_next_cd_audio_volume_matrix s"
  "m_next_cd_audio_volume_matrix (SendACKAndStat s) = m_next_cd_audio_volume_matrix s"
  "m_next_cd_audio_volume_matrix (SendErrorResponse reason s) = m_next_cd_audio_volume_matrix s"
  "m_next_cd_audio_volume_matrix (EndCommand s) = m_next_cd_audio_volume_matrix s"
  "m_next_cd_audio_volume_matrix (StopReading s) = m_next_cd_audio_volume_matrix s"
  "m_next_cd_audio_volume_matrix (BeginReading_in_position env cdda s)
     = m_next_cd_audio_volume_matrix s"
  "m_next_cd_audio_volume_matrix (ProcessXAADPCMSector env s) = m_next_cd_audio_volume_matrix s"
  "m_next_cd_audio_volume_matrix (ProcessCDDASector s) = m_next_cd_audio_volume_matrix s"
  "m_next_cd_audio_volume_matrix (ExecuteTestCommand subcommand s)
     = m_next_cd_audio_volume_matrix s"
  "m_next_cd_audio_volume_matrix (RemoveMedia s) = m_next_cd_audio_volume_matrix s"
  "m_next_cd_audio_volume_matrix (snd (DMARead words word_count s))
     = m_next_cd_audio_volume_matrix s"
  "m_next_cd_audio_volume_matrix (snd (InsertMedia env filename s))
     = m_next_cd_audio_volume_matrix s"
  by (simp_all add: UpdateStatusRegister_def SetDowncount_def InterruptRequest_def
        SetInterrupt_def CancelAsyncInterrupt_def SendACKAndStat_def SendErrorResponse_def
        EndCommand_def StopReading_def BeginReading_in_position_def ProcessXAADPCMSector_def
        ProcessCDDASector_def ExecuteTestCommand_def RemoveMedia_def DMARead_def
        InsertMedia_def Let_def
        split: prod.split option.split)

lemma SetAsyncInterrupt_staged:
  "SetAsyncInterrupt i s = Inr s' \<Longrightarrow>
     m_next_cd_audio_volume_matrix s' = m_next_cd_audio_volume_matrix s"
  by (auto simp: SetAsyncInterrupt_eq split: if_splits)

lemma DeliverAsyncInterrupt_staged:
  "DeliverAsyncInterrupt s = Inr s' \<Longrightarrow>
     m_next_cd_audio_volume_matrix s' = m_next_cd_audio_volume_matrix s"
  by (auto simp: DeliverAsyncInterrupt_def InterruptRequest_def split: if_splits)

lemma SendAsyncErrorResponse_staged:
  "SendAsyncErrorResponse reason s = Inr s' \<Longrightarrow>
     m_next_cd_audio_volume_matrix s' = m_next_cd_audio_volume_matrix s"
  by (auto simp: SendAsyncErrorResponse_def dest: SetAsyncInterrupt_staged)

lemma BeginSeeking_staged:
  "BeginSeeking env s = Inr s' \<Longrightarrow>
     m_next_cd_audio_volume_matrix s' = m_next_cd_audio_volume_matrix s"
  by (auto simp: BeginSeeking_def GetTicksForSeek_def Let_def SetDowncount_def
        split: if_splits option.splits)

lemma BeginReading_staged:
  "BeginReading env cdda s = Inr s' \<Longrightarrow>
     m_next_cd_audio_volume_matrix s' = m_next_cd_audio_volume_matrix s"
  by (auto simp: BeginReading_def bindE_eq_Inr staged_matrix_kept
        split: if_splits option.splits dest: BeginSeeking_staged)

lemma LoadDataFIFO_staged:
  "LoadDataFIFO s = Inr s' \<Longrightarrow>
     m_next_cd_audio_volume_matrix s' = m_next_cd_audio_volume_matrix s"
  by (auto simp: LoadDataFIFO_def Let_def split: if_splits)

lemma ProcessDataSector_staged:
  "ProcessDataSector env s = Inr s' \<Longrightarrow>
     m_next_cd_audio_volume_matrix s' = m_next_cd_audio_volume_matrix s"
  by (auto simp: ProcessDataSector_def Let_def bindE_eq_Inr staged_matrix_kept
        split: if_splits dest: SetAsyncInterrupt_staged)

lemma DoSectorRead_staged:
  "DoSectorRead env s = Inr s' \<Longrightarrow>
     m_next_cd_audio_volume_matrix s' = m_next_cd_audio_volume_matrix s"
  by (auto simp: DoSectorRead_def Let_def bindE_eq_Inr staged_matrix_kept
        split: if_splits option.splits prod.splits dest: ProcessDataSector_staged)

lemma DoSeekComplete_staged:
  "DoSeekComplete env s = Inr s' \<Longrightarrow>
     m_next_cd_audio_volume_matrix s' = m_next_cd_audio_volume_matrix s"
  by (auto simp: DoSeekComplete_def Let_def bindE_eq_Inr staged_matrix_kept
        split: if_splits option.splits prod.splits
        dest!: SetAsyncInterrupt_staged SendAsyncErrorResponse_staged BeginReading_staged)

lemma NextCommandStage_wait:
  "NextCommandStage env True time s =
     Inr (UpdateStatusRegister
            (s\<lparr>m_command_state := WaitForIRQClear, m_command_remaining_ticks := time,
               m_command_stage := m_command_stage s + 1\<rparr>))"
  by (simp add: NextCommandStage_def Let_def)

lemma ExecuteCommand_staged:
  assumes "ExecuteCommand env s = Inr s'"
  shows "m_next_cd_audio_volume_matrix s' = m_next_cd_audio_volume_matrix s"
  using assms
  by (cases "m_command s")
     (auto simp: ExecuteCommand_def NextCommandStage_wait Let_def bindE_eq_Inr
        staged_matrix_kept
        split: if_splits option.splits list.splits
        dest!: BeginSeeking_staged BeginReading_staged)

lemma Execute_staged:
  assumes "Execute env ticks s = Inr s'"
  shows "m_next_cd_audio_volume_matrix s' = m_next_cd_audio_volume_matrix s"
proof -
  let ?s1 = "s\<lparr>m_command_remaining_ticks := m_command_remaining_ticks s - ticks\<rparr>"
  let ?cmd = "case m_command_state s of
                Idle \<Rightarrow> Inr s
              | WaitForIRQClear \<Rightarrow> Inr s
              | WaitForExecute \<Rightarrow>
                  if sint (m_command_remaining_ticks ?s1) \<le> 0 then ExecuteCommand env ?s1
                  else Inr (SetDowncount (m_command_remaining_ticks ?s1) ?s1)"
  from assms obtain s2 where cmd: "?cmd = Inr s2"
    and drive: "(if IsActive (m_secondary_status s2) then
                   let s3 = s2\<lparr>m_read_or_seek_remaining_ticks :=
                                 m_read_or_seek_remaining_ticks s2 - ticks\<rparr>
                   in if sint (m_read_or_seek_remaining_ticks s3) \<le> 0 then
                        (if stat_seeking (m_secondary_status s3) then DoSeekComplete env s3
                         else DoSectorRead env s3)
                      else Inr (SetDowncount (m_read_or_seek_remaining_ticks s3) s3)
                 else Inr s2) = Inr s'"
    unfolding Execute_def Let_def bindE_eq_Inr by blast
  have a: "m_next_cd_audio_volume_matrix s2 = m_next_cd_audio_volume_matrix s"
  proof (cases "m_command_state s")
    case Idle
    with cmd show ?thesis by simp
  next
    case WaitForIRQClear
    with cmd show ?thesis by simp
  next
    case WaitForExecute
    show ?thesis
    proof (cases "sint (m_command_remaining_ticks ?s1) \<le> 0")
      case True
      with cmd WaitForExecute have "ExecuteCommand env ?s1 = Inr s2" by simp
      from ExecuteCommand_staged [OF this] show ?thesis by simp
    next
      case False
      with cmd WaitForExecute show ?thesis by (auto simp: staged_matrix_kept)
    qed
  qed
  let ?s3 = "s2\<lparr>m_read_or_seek_remaining_ticks := m_read_or_seek_remaining_ticks s2 - ticks\<rparr>"
  have b: "m_next_cd_audio_volume_matrix s' = m_next_cd_audio_volume_matrix s2"
  proof (cases "IsActive (m_secondary_status s2)")
    case False
    with drive show ?thesis by simp
  next
    case True
    show ?thesis
    proof (cases "sint (m_read_or_seek_remaining_ticks ?s3) \<le> 0")
      case False
      with drive True show ?thesis by (auto simp: Let_def staged_matrix_kept)
    next
      case le: True
      show ?thesis
      proof (cases "stat_seeking (m_secondary_status ?s3)")
        case True
        with drive le \<open>IsActive (m_secondary_status s2)\<close>
        have "DoSeekComplete env ?s3 = Inr s'" by (simp add: Let_def)
        from DoSeekComplete_staged [OF this] show ?thesis by simp
      next
        case False
        with drive le \<open>IsActive (m_secondary_status s2)\<close>
        have "DoSectorRead env ?s3 = Inr s'" by (simp add: Let_def)
        from DoSectorRead_staged [OF this] show ?thesis by simp
      qed
    qed
  qed
  from a b show ?thesis by simp
qed

lemma BeginCommand_staged_m11:
  assumes "\<forall>s s'. Synchronize env s = Inr s' \<longrightarrow>
             m11 (m_next_cd_audio_volume_matrix s') = m11 (m_next_cd_audio_volume_matrix s)"
      and "BeginCommand env command s = Inr s'"
  shows "m11 (m_next_cd_audio_volume_matrix s') = m11 (m_next_cd_audio_volume_matrix s)"
proof -
  from assms(2) obtain s1 where
    sync: "Synchronize env (s\<lparr>m_response_fifo := []\<rparr>) = Inr s1"
    and s': "s' = UpdateStatusRegister
                   (SetDowncount (GetAckDelayForCommand (s1\<lparr>m_command := command, m_command_stage := 0\<rparr>))
                      (s1\<lparr>m_command := command, m_command_stage := 0,
                          m_command_remaining_ticks :=
                            GetAckDelayForCommand (s1\<lparr>m_command := command, m_command_stage := 0\<rparr>),
                          m_command_state := WaitForExecute\<rparr>))"
    by (auto simp: BeginCommand_def Let_def bindE_eq_Inr GetAckDelayForCommand_def
          split: if_splits)
  from assms(1) sync
  have "m11 (m_next_cd_audio_volume_matrix s1) = m11 (m_next_cd_audio_volume_matrix s)"
    by fastforce
  then show ?thesis
    by (simp add: s' staged_matrix_kept)
qed

lemma WriteRegister_staged_m11:
  assumes "\<forall>s s'. Synchronize env s = Inr s' \<longrightarrow>
             m11 (m_next_cd_audio_volume_matrix s') = m11 (m_next_cd_audio_volume_matrix s)"
      and "WriteRegister env offset v s = Inr s'"
  shows "m11 (m_next_cd_audio_volume_matrix s') = m11 (m_next_cd_audio_volume_matrix s)"
proof -
  consider (o0) "offset = 0" | (o1) "offset = 1" | (o2) "offset = 2" | (o3) "offset = 3"
    | (other) "offset \<noteq> 0" "offset \<noteq> 1" "offset \<noteq> 2" "offset \<noteq> 3"
    by blast
  then show ?thesis
  proof cases
    case o0
    with assms(2) show ?thesis by (auto simp: WriteRegister_def Let_def)
  next
    case o1
    with assms(2) show ?thesis
      by (auto simp: WriteRegister_def Let_def split: if_splits
            dest: BeginCommand_staged_m11 [OF assms(1)])
  next
    case o2
    with assms(2) show ?thesis
      by (auto simp: WriteRegister_def Let_def staged_matrix_kept split: if_splits)
  next
    case o3
    show ?thesis
    proof (cases "status_index (m_status s) = 1")
      case False
      with o3 assms(2) show ?thesis
        by (auto simp: WriteRegister_def Let_def staged_matrix_kept bindE_eq_Inr
              split: if_splits dest!: LoadDataFIFO_staged)
    next
      case True
      let ?s1 = "s\<lparr>m_interrupt_flag_register :=
                       m_interrupt_flag_register s AND NOT (v AND INTERRUPT_REGISTER_MASK)\<rparr>"
      from o3 True assms(2) obtain s4 where
        s4: "(\<exists>s2. Synchronize env ?s1 = Inr s2
                  \<and> s4 = SetDowncount (m_command_remaining_ticks s2)
                            (s2\<lparr>m_command_state := WaitForExecute\<rparr>))
             \<or> DeliverAsyncInterrupt ?s1 = Inr s4 \<or> s4 = ?s1"
        and s': "s' = UpdateStatusRegister (s4\<lparr>m_param_fifo := []\<rparr>) \<or> s' = s4"
        by (auto simp: WriteRegister_def Let_def bindE_eq_Inr split: if_splits)
      from s4 have "m11 (m_next_cd_audio_volume_matrix s4) = m11 (m_next_cd_audio_volume_matrix s)"
      proof (elim disjE exE conjE)
        fix s2
        assume a: "Synchronize env ?s1 = Inr s2"
          and b: "s4 = SetDowncount (m_command_remaining_ticks s2)
                         (s2\<lparr>m_command_state := WaitForExecute\<rparr>)"
        from assms(1) a
        have "m11 (m_next_cd_audio_volume_matrix s2) = m11 (m_next_cd_audio_volume_matrix ?s1)"
          by blast
        then show ?thesis by (simp add: b staged_matrix_kept)
      next
        assume "DeliverAsyncInterrupt ?s1 = Inr s4"
        then show ?thesis by (auto dest!: DeliverAsyncInterrupt_staged)
      next
        assume "s4 = ?s1"
        then show ?thesis by simp
      qed
      with s' show ?thesis
        by (auto simp: staged_matrix_kept)
    qed
  next
    case other
    with assms(2) show ?thesis by (auto simp: WriteRegister_def Let_def)
  qed
qed

lemma ReadRegister_staged:
  "ReadRegister offset s = Inr r \<Longrightarrow>
     m_next_cd_audio_volume_matrix (snd r) = m_next_cd_audio_volume_matrix s"
  by (auto simp: ReadRegister_def staged_matrix_kept split: if_splits list.splits)

lemma SoftReset_staged:
  "m_next_cd_audio_volume_matrix (SoftReset s) = \<lparr>m00 = 0x80, m01 = 0x00, m10 = 0x00, m11 = 0x80\<rparr>"
  by (simp add: SoftReset_def staged_matrix_kept)

lemma step_staged_m11:
  assumes "\<forall>s s'. Synchronize env s = Inr s' \<longrightarrow>
             m11 (m_next_cd_audio_volume_matrix s') = m11 (m_next_cd_audio_volume_matrix s)"
      and "step env x s = Inr s'"
      and "m11 (m_next_cd_audio_volume_matrix s) = 0x80"
  shows "m11 (m_next_cd_audio_volume_matrix s') = 0x80"
proof (cases x)
  case (Write_register offset v)
  with assms(2) have "WriteRegister env offset v s = Inr s'" by simp
  from WriteRegister_staged_m11 [OF assms(1) this] assms(3) show ?thesis by simp
next
  case (Read_register offset)
  with assms(2,3) show ?thesis
    by (auto simp: bindE_eq_Inr dest!: ReadRegister_staged)
next
  case (DMA_read word_count)
  with assms(2,3) show ?thesis by (auto simp: staged_matrix_kept)
next
  case (Run_ticks ticks)
  with assms(2,3) show ?thesis by (auto dest!: Execute_staged)
next
  case (Insert_media filename)
  with assms(2,3) show ?thesis by (auto simp: staged_matrix_kept)
next
  case Remove_media
  with assms(2,3) show ?thesis by (auto simp: staged_matrix_kept)
next
  case Reset_console
  with assms(2) show ?thesis by (auto simp: Reset_def SoftReset_staged)
qed

lemma run_staged_m11:
  assumes "\<forall>s s'. Synchronize env s = Inr s' \<longrightarrow>
             m11 (m_next_cd_audio_volume_matrix s') = m11 (m_next_cd_audio_volume_matrix s)"
  shows "run env ops s = Inr s' \<Longrightarrow> m11 (m_next_cd_audio_volume_matrix s) = 0x80 \<Longrightarrow>
         m11 (m_next_cd_audio_volume_matrix s') = 0x80"
proof (induction ops arbitrary: s)
  case Nil
  then show ?case by simp
next
  case (Cons x xs)
  from Cons.prems(1) obtain s1 where
    s1: "step env x s = Inr s1" and rest: "run env xs s1 = Inr s'"
    by (auto simp: bindE_eq_Inr)
  from step_staged_m11 [OF assms s1 Cons.prems(2)]
  have "m11 (m_next_cd_audio_volume_matrix s1) = 0x80" .
  with Cons.IH [OF rest] show ?case by simp
qed

text \<open>
  C10. No register write stores to the staged entry M'[1][1]: whatever the offset, the index
  and the value, a write leaves it as it was. At index 3 the writes to offsets 1 and 2 both
  store the value to M'[1][0]; at index 2 the write to offset 2 stores it to M'[0][0] and the
  write to offset 3 to M'[0][1]. So in every state reached from power-on M'[1][1] is 0x80, and
  every apply-volume write with bit 5 commits a matrix with M[1][1] = 0x80. The scheduler's
  \<^verbatim>\<open>Synchronize\<close>, which a write may call and which is not part of the controller, is
  assumed to leave M'[1][1] alone; a scheduler that flushes its ticks through \<^verbatim>\<open>Execute\<close>
  does.
\<close>

theorem staged_m11_never_written:
  assumes "\<forall>s s'. Synchronize env s = Inr s' \<longrightarrow>
             m11 (m_next_cd_audio_volume_matrix s') = m11 (m_next_cd_audio_volume_matrix s)"
  shows "(WriteRegister env offset v s = Inr s' \<longrightarrow>
            m11 (m_next_cd_audio_volume_matrix s') = m11 (m_next_cd_audio_volume_matrix s))
     \<and> (status_index (m_status s) = 3 \<longrightarrow>
            WriteRegister env 1 v s =
              Inr (s\<lparr>m_next_cd_audio_volume_matrix := (m_next_cd_audio_volume_matrix s)\<lparr>m10 := v\<rparr>\<rparr>)
          \<and> WriteRegister env 2 v s =
              Inr (s\<lparr>m_next_cd_audio_volume_matrix := (m_next_cd_audio_volume_matrix s)\<lparr>m10 := v\<rparr>\<rparr>))
     \<and> (status_index (m_status s) = 2 \<longrightarrow>
            WriteRegister env 2 v s =
              Inr (s\<lparr>m_next_cd_audio_volume_matrix := (m_next_cd_audio_volume_matrix s)\<lparr>m00 := v\<rparr>\<rparr>)
          \<and> WriteRegister env 3 v s =
              Inr (s\<lparr>m_next_cd_audio_volume_matrix := (m_next_cd_audio_volume_matrix s)\<lparr>m01 := v\<rparr>\<rparr>))
     \<and> (reachable env s \<longrightarrow> m11 (m_next_cd_audio_volume_matrix s) = 0x80)
     \<and> (reachable env s \<and> status_index (m_status s) = 3 \<and> v AND 0x20 \<noteq> 0 \<longrightarrow>
            (\<exists>s''. WriteRegister env 3 v s = Inr s''
               \<and> m_cd_audio_volume_matrix s'' = m_next_cd_audio_volume_matrix s
               \<and> m11 (m_cd_audio_volume_matrix s'') = 0x80))"
proof -
  have frame: "WriteRegister env offset v s = Inr s' \<longrightarrow>
            m11 (m_next_cd_audio_volume_matrix s') = m11 (m_next_cd_audio_volume_matrix s)"
    using WriteRegister_staged_m11 [OF assms] by blast
  have idx3: "status_index (m_status s) = 3 \<longrightarrow>
            WriteRegister env 1 v s =
              Inr (s\<lparr>m_next_cd_audio_volume_matrix := (m_next_cd_audio_volume_matrix s)\<lparr>m10 := v\<rparr>\<rparr>)
          \<and> WriteRegister env 2 v s =
              Inr (s\<lparr>m_next_cd_audio_volume_matrix := (m_next_cd_audio_volume_matrix s)\<lparr>m10 := v\<rparr>\<rparr>)"
    by (simp add: WriteRegister_def Let_def)
  have idx2: "status_index (m_status s) = 2 \<longrightarrow>
            WriteRegister env 2 v s =
              Inr (s\<lparr>m_next_cd_audio_volume_matrix := (m_next_cd_audio_volume_matrix s)\<lparr>m00 := v\<rparr>\<rparr>)
          \<and> WriteRegister env 3 v s =
              Inr (s\<lparr>m_next_cd_audio_volume_matrix := (m_next_cd_audio_volume_matrix s)\<lparr>m01 := v\<rparr>\<rparr>)"
    by (simp add: WriteRegister_def Let_def)
  have inv: "reachable env s \<longrightarrow> m11 (m_next_cd_audio_volume_matrix s) = 0x80"
  proof
    assume "reachable env s"
    then obtain ops where "run env ops power_on = Inr s"
      unfolding reachable_def by blast
    from run_staged_m11 [OF assms this] show "m11 (m_next_cd_audio_volume_matrix s) = 0x80"
      by (simp add: power_on_def SoftReset_staged)
  qed
  have commit: "reachable env s \<and> status_index (m_status s) = 3 \<and> v AND 0x20 \<noteq> 0 \<longrightarrow>
            (\<exists>s''. WriteRegister env 3 v s = Inr s''
               \<and> m_cd_audio_volume_matrix s'' = m_next_cd_audio_volume_matrix s
               \<and> m11 (m_cd_audio_volume_matrix s'') = 0x80)"
    using inv by (simp add: WriteRegister_def Let_def)
  from frame idx3 idx2 inv commit show ?thesis
    by blast
qed

theorem staged_m11_never_written_witness:
  "run zero_disc_flushing
        [Write_register 1 0x01, Write_register 0 3, Write_register 1 0x55, Write_register 2 0x66]
        power_on
      = Inr (power_on\<lparr>m_command_state := WaitForExecute, m_command := Getstat,
                      m_command_remaining_ticks := 4000, m_status := 0x9B,
                      m_next_cd_audio_volume_matrix := \<lparr>m00 = 0x80, m01 = 0, m10 = 0x66, m11 = 0x80\<rparr>,
                      downcounts := [4000]\<rparr>)
   \<and> (\<exists>s''. WriteRegister zero_disc_flushing 3 0x20
               (power_on\<lparr>m_command_state := WaitForExecute, m_command := Getstat,
                      m_command_remaining_ticks := 4000, m_status := 0x9B,
                      m_next_cd_audio_volume_matrix := \<lparr>m00 = 0x80, m01 = 0, m10 = 0x66, m11 = 0x80\<rparr>,
                      downcounts := [4000]\<rparr>) = Inr s''
          \<and> m_cd_audio_volume_matrix s'' = \<lparr>m00 = 0x80, m01 = 0, m10 = 0x66, m11 = 0x80\<rparr>)"
proof -
  let ?S = "power_on\<lparr>m_command_state := WaitForExecute, m_command := Getstat,
                      m_command_remaining_ticks := 4000, m_status := 0x9B,
                      m_next_cd_audio_volume_matrix := \<lparr>m00 = 0x80, m01 = 0, m10 = 0x66, m11 = 0x80\<rparr>,
                      downcounts := [4000]\<rparr> :: u32 CDROM"
  have hyp: "\<forall>s s'. Synchronize zero_disc_flushing s = Inr s' \<longrightarrow>
       m11 (m_next_cd_audio_volume_matrix s') = m11 (m_next_cd_audio_volume_matrix s)"
    by (auto simp: zero_disc_flushing_def dest!: Execute_staged)
  have r: "run zero_disc_flushing
        [Write_register 1 0x01, Write_register 0 3, Write_register 1 0x55, Write_register 2 0x66]
        power_on = Inr ?S"
    by (simp add: power_on_eq zero_disc_flushing_def zero_disc_def WriteRegister_def
          status_index_def BeginCommand_def Command_of_u8_def GetAckDelayForCommand_def
          SetDowncount_def UpdateStatusRegister_def assign_bit_def DRQSTS_def
          PARAM_FIFO_SIZE_def Execute_def IsActive_def stat_seeking_def stat_reading_def
          stat_playing_cdda_def Let_def)
  then have reach: "reachable zero_disc_flushing ?S"
    unfolding reachable_def by blast
  have idx: "status_index (m_status ?S) = 3" and bit5: "(0x20 :: u8) AND 0x20 \<noteq> 0"
    by (simp_all add: status_index_def)
  from staged_m11_never_written [OF hyp, of 3 "0x20" ?S ?S] reach idx bit5
  obtain s'' where "WriteRegister zero_disc_flushing 3 0x20 ?S = Inr s''"
    and "m_cd_audio_volume_matrix s'' = m_next_cd_audio_volume_matrix ?S"
    by blast
  then have "\<exists>s''. WriteRegister zero_disc_flushing 3 0x20 ?S = Inr s''
          \<and> m_cd_audio_volume_matrix s'' = \<lparr>m00 = 0x80, m01 = 0, m10 = 0x66, m11 = 0x80\<rparr>"
    by (auto simp: power_on_eq)
  with r show ?thesis
    by blast
qed

end
